theory Spec2Isabelle
  imports Complex_Main "HOL-Library.Char_ord" "HOL-Library.List_Lexorder"
begin

section \<open>Numbers and plane vectors\<close>

text \<open>
  The layout engine of \<^verbatim>\<open>spatial_layout.py\<close> computes on numpy arrays of floats. The
  embedding reads every float as a real number: rounding, signed zeros and overflow are
  not modelled, but for \<^verbatim>\<open>_angleWrap\<close>, which the section on double precision embeds with
  the rounding of its operations. The one float behaviour the code can reach without rounding, a division by
  zero (numpy returns \<^verbatim>\<open>nan\<close> or \<^verbatim>\<open>inf\<close> and carries on), is a result of its own,
  \<open>NonFinite\<close>, wherever the source divides by a value that can be zero.
\<close>

type_synonym vec = "real \<times> real"

definition vadd :: "vec \<Rightarrow> vec \<Rightarrow> vec" where
  "vadd a b = (fst a + fst b, snd a + snd b)"

definition vsub :: "vec \<Rightarrow> vec \<Rightarrow> vec" where
  "vsub a b = (fst a - fst b, snd a - snd b)"

definition vscale :: "real \<Rightarrow> vec \<Rightarrow> vec" where
  "vscale k a = (k * fst a, k * snd a)"

definition vneg :: "vec \<Rightarrow> vec" where
  "vneg a = (- fst a, - snd a)"

text \<open>\<^verbatim>\<open>(v[0]**2 + v[1]**2)**0.5\<close>, as the source writes every norm.\<close>

definition vnorm :: "vec \<Rightarrow> real" where
  "vnorm v = sqrt ((fst v)\<^sup>2 + (snd v)\<^sup>2)"

text \<open>Python's \<^verbatim>\<open>%\<close> on floats with a non-zero divisor: the floored modulus.\<close>

definition py_mod :: "real \<Rightarrow> real \<Rightarrow> real" where
  "py_mod a b = a - b * of_int \<lfloor>a / b\<rfloor>"

section \<open>Errors\<close>

text \<open>
  Every way a call can fail to return a real-valued state. \<open>ValueError\<close>, \<open>KeyError\<close>,
  \<open>IndexError\<close>, \<open>AssertionError\<close> and \<open>NameError\<close> are the Python exceptions of those
  names.
  \<open>NonFinite\<close> is a division by zero: numpy warns, yields \<^verbatim>\<open>nan\<close> or \<^verbatim>\<open>inf\<close> and goes on
  computing with it, so no real-valued state results. \<open>ShapeError\<close> stands for the
  exception (a \<^verbatim>\<open>ValueError\<close>, \<^verbatim>\<open>IndexError\<close> or \<^verbatim>\<open>TypeError\<close>, depending on where the
  short array is used first) that follows when a phase vector does not hold four numbers
  for each mass.
\<close>

datatype error =
  ValueError | KeyError | IndexError | AssertionError | NameError | NonFinite | ShapeError

text \<open>Sequencing of fallible steps: the first error ends the computation.\<close>

definition bindE :: "error + 'a \<Rightarrow> ('a \<Rightarrow> error + 'b) \<Rightarrow> error + 'b" where
  "bindE r f = (case r of Inl e \<Rightarrow> Inl e | Inr v \<Rightarrow> f v)"

section \<open>Constants\<close>

definition FRICTION_COEFFICIENT :: real where "FRICTION_COEFFICIENT = 1"
definition INTEGRATION_DT :: real where "INTEGRATION_DT = 1 / 10"
definition SAFE_DISTANCE :: real where "SAFE_DISTANCE = 2 / 10"

section \<open>Geometry primitives\<close>

definition angleWrap :: "real \<Rightarrow> real" where
  "angleWrap angle =
     (let ret = py_mod (angle + pi) (2 * pi);
          ret = (if ret < 0 then ret + 2 * pi else ret)
      in ret - pi)"

text \<open>
  \<^verbatim>\<open>np.arctan2(y, x)\<close> on reals: the angle of the point \<open>(x, y)\<close>, in \<open>(-\<pi>, \<pi>]\<close>, and
  0 at the origin.
\<close>

definition arctan2 :: "real \<Rightarrow> real \<Rightarrow> real" where
  "arctan2 y x =
     (if 0 < x then arctan (y / x)
      else if x < 0 then (if 0 \<le> y then arctan (y / x) + pi else arctan (y / x) - pi)
      else if 0 < y then pi / 2
      else if y < 0 then - (pi / 2)
      else 0)"

text \<open>
  The coefficients that \<^verbatim>\<open>_firstCircleIntersect\<close> computes before it looks at the
  discriminant: whether the line is solved as \<open>x = m y + c\<close>, the slope \<open>m\<close>, the
  offset \<open>c\<close>, and the quadratic's \<open>quad_a\<close>, \<open>quad_b\<close>, \<open>quad_c\<close>.
\<close>

definition use_vertical :: "vec \<Rightarrow> vec \<Rightarrow> bool" where
  "use_vertical line_a line_b =
     (let disp = vsub line_b line_a in \<bar>fst disp\<bar> < \<bar>snd disp\<bar>)"

definition line_m :: "vec \<Rightarrow> vec \<Rightarrow> real" where
  "line_m line_a line_b =
     (let disp = vsub line_b line_a
      in if use_vertical line_a line_b then fst disp / snd disp else snd disp / fst disp)"

definition line_c :: "vec \<Rightarrow> vec \<Rightarrow> real" where
  "line_c line_a line_b =
     (let m = line_m line_a line_b
      in if use_vertical line_a line_b then - m * snd line_a + fst line_a
         else - m * fst line_a + snd line_a)"

definition quad_a :: "vec \<Rightarrow> vec \<Rightarrow> real" where
  "quad_a line_a line_b = - 1 - (line_m line_a line_b)\<^sup>2"

definition quad_b :: "vec \<Rightarrow> vec \<Rightarrow> vec \<Rightarrow> real" where
  "quad_b line_a line_b circle_center =
     (let m = line_m line_a line_b; c = line_c line_a line_b;
          v = use_vertical line_a line_b
      in - 2 * m * c + 2 * m * (if v then fst circle_center else snd circle_center)
         + 2 * (if v then snd circle_center else fst circle_center))"

definition quad_c :: "vec \<Rightarrow> vec \<Rightarrow> vec \<Rightarrow> real \<Rightarrow> real" where
  "quad_c line_a line_b circle_center circle_r =
     (let c = line_c line_a line_b; v = use_vertical line_a line_b
      in - c\<^sup>2 + circle_r\<^sup>2 - (fst circle_center)\<^sup>2 - (snd circle_center)\<^sup>2
         + 2 * c * (if v then fst circle_center else snd circle_center))"

definition discriminant :: "vec \<Rightarrow> vec \<Rightarrow> vec \<Rightarrow> real \<Rightarrow> real" where
  "discriminant line_a line_b circle_center circle_r =
     (quad_b line_a line_b circle_center)\<^sup>2
       - 4 * quad_a line_a line_b * quad_c line_a line_b circle_center circle_r"

text \<open>
  The point of the line \<open>x = m y + c\<close> (vertical form) or \<open>y = m x + c\<close> that belongs
  to a root of the quadratic.
\<close>

definition intersect_of :: "vec \<Rightarrow> vec \<Rightarrow> real \<Rightarrow> vec" where
  "intersect_of line_a line_b rt =
     (let m = line_m line_a line_b; c = line_c line_a line_b;
          v = use_vertical line_a line_b
      in (if v then m * rt + c else rt, if v then rt else m * rt + c))"

text \<open>
  \<^verbatim>\<open>_firstCircleIntersect\<close>. When \<open>line_a = line_b\<close> the displacement is \<open>(0, 0)\<close>,
  \<^verbatim>\<open>use_vertical\<close> is false and the slope is \<^verbatim>\<open>0.0 / 0.0\<close>: numpy returns \<^verbatim>\<open>nan\<close>, the
  test \<^verbatim>\<open>discriminant < 0\<close> is false on it, and the function returns an array of
  \<^verbatim>\<open>nan\<close> without raising. No other division of the function can have a zero divisor:
  in the vertical form \<open>\<bar>disp\<^sub>0\<bar> < \<bar>disp\<^sub>1\<bar>\<close>, and \<open>quad_a \<le> -1\<close>.
\<close>

definition firstCircleIntersect :: "vec \<Rightarrow> vec \<Rightarrow> vec \<Rightarrow> real \<Rightarrow> error + vec" where
  "firstCircleIntersect line_a line_b circle_center circle_r =
     (let disp = vsub line_b line_a
      in if \<not> use_vertical line_a line_b \<and> fst disp = 0 then Inl NonFinite
         else if discriminant line_a line_b circle_center circle_r < 0 then Inl ValueError
         else
           let qa = quad_a line_a line_b;
               qb = quad_b line_a line_b circle_center;
               d = discriminant line_a line_b circle_center circle_r;
               root_1 = (- qb + sqrt d) / (2 * qa);
               root_2 = (- qb - sqrt d) / (2 * qa);
               intersect_1 = intersect_of line_a line_b root_1;
               intersect_2 = intersect_of line_a line_b root_2;
               d1 = vsub intersect_1 line_a;
               d2 = vsub intersect_2 line_a
           in Inr (if vnorm d1 < vnorm d2 then intersect_1 else intersect_2))"



definition reflectedDirection :: "vec \<Rightarrow> vec \<Rightarrow> vec \<Rightarrow> real" where
  "reflectedDirection start_point reflect_point reflect_origin =
     (let ro = vsub reflect_origin reflect_point;
          sr = vsub reflect_point start_point
      in angleWrap (arctan2 (- snd ro) (- fst ro)
                     - (arctan2 (snd sr) (fst sr) - arctan2 (snd ro) (fst ro))))"

definition reflectedPosition :: "vec \<Rightarrow> vec \<Rightarrow> vec \<Rightarrow> real \<Rightarrow> vec" where
  "reflectedPosition start_point step reflect_point reflect_direction =
     (let reflect_step = vsub reflect_point start_point;
          r = vnorm step - vnorm reflect_step
      in vadd reflect_point (vscale r (cos reflect_direction, sin reflect_direction)))"

definition rotateVectorTo :: "vec \<Rightarrow> real \<Rightarrow> vec" where
  "rotateVectorTo vector angle =
     (let r = vnorm vector in (r * cos angle, r * sin angle))"

definition orthog :: "vec \<Rightarrow> vec" where
  "orthog vector = (- snd vector, fst vector)"

section \<open>Double precision\<close>

text \<open>
  The floats of the source are IEEE 754 doubles. \<open>fl64 x\<close> is the double nearest to the
  real \<open>x\<close>, a tie going to the even significand: the result of an addition, a
  subtraction or a multiplication of two doubles is \<open>fl64\<close> of the exact result. The
  significand has 53 bits, and \<open>\<lfloor>log\<^sub>2 \<bar>x\<bar>\<rfloor> - 52\<close> is the exponent of its last bit. Overflow and
  subnormal numbers are left out: the exponent is not bounded.
\<close>

definition round_half_even :: "real \<Rightarrow> int" where
  "round_half_even x =
     (let f = \<lfloor>x\<rfloor>; d = x - of_int f
      in if d < 1 / 2 then f
         else if 1 / 2 < d then f + 1
         else if even f then f else f + 1)"

definition fl64 :: "real \<Rightarrow> real" where
  "fl64 x =
     (if x = 0 then 0
      else let e = \<lfloor>log 2 \<bar>x\<bar>\<rfloor> - 52
           in of_int (round_half_even (x / 2 powr of_int e)) * 2 powr of_int e)"

text \<open>\<^verbatim>\<open>np.pi\<close>, the double nearest to \<open>\<pi>\<close>: \<^verbatim>\<open>0x1.921fb54442d18p+1\<close>.\<close>

definition pi64 :: real where
  "pi64 = 7074237752028440 / 2 ^ 51"

text \<open>
  C's \<^verbatim>\<open>fmod\<close>, whose result is exact: what is left of \<open>a\<close> after taking \<open>b\<close> away a whole
  number of times, the number being \<open>a / b\<close> rounded towards zero.
\<close>

definition c_fmod :: "real \<Rightarrow> real \<Rightarrow> real" where
  "c_fmod a b = a - b * of_int (if 0 \<le> a / b then \<lfloor>a / b\<rfloor> else \<lceil>a / b\<rceil>)"

text \<open>
  \<^verbatim>\<open>a % b\<close> on doubles with \<open>b \<noteq> 0\<close>, as Python and numpy compute it: \<^verbatim>\<open>fmod(a, b)\<close>, and \<open>b\<close>
  added to it when it is not zero and its sign is not the sign of \<open>b\<close>. The addition
  rounds.
\<close>

definition float_mod :: "real \<Rightarrow> real \<Rightarrow> real" where
  "float_mod a b =
     (let m = c_fmod a b
      in if m \<noteq> 0 then (if (b < 0) \<noteq> (m < 0) then fl64 (m + b) else m) else 0)"

text \<open>\<^verbatim>\<open>_angleWrap\<close> on doubles.\<close>

definition angleWrap64 :: "real \<Rightarrow> real" where
  "angleWrap64 angle =
     (let ret = float_mod (fl64 (angle + pi64)) (fl64 (2 * pi64));
          ret = (if ret < 0 then fl64 (ret + fl64 (2 * pi64)) else ret)
      in fl64 (ret - pi64))"

text \<open>The double just below \<open>-\<pi>\<close> that the literal \<^verbatim>\<open>-3.1415926535897936\<close> denotes.\<close>

definition ex_angle :: real where
  "ex_angle = - (7074237752028441 / 2 ^ 51)"

section \<open>Masses\<close>

text \<open>
  A mass object. \<^verbatim>\<open>MassFixed\<close> sets \<open>fixed\<close> and \<^verbatim>\<open>Mass\<close> clears it, and nothing
  assigns the flag afterwards, so the flag tells the class and selects the method that
  Python dispatches to. \<^verbatim>\<open>_mass\<close> is 1 in every object: the constructor sets it and
  takes no argument for it. Position, velocity and acceleration are arrays of two floats,
  taken here as owned by their mass.
\<close>

record mass =
  name :: string
  fixed :: bool
  pos :: vec
  vel :: vec
  acc :: vec

definition mass_of :: "mass \<Rightarrow> real" where
  "mass_of m = 1"

definition MassFixed :: "string \<Rightarrow> vec \<Rightarrow> mass" where
  "MassFixed n p = \<lparr>name = n, fixed = True, pos = p, vel = (0, 0), acc = (0, 0)\<rparr>"

definition Mass :: "string \<Rightarrow> mass" where
  "Mass n = \<lparr>name = n, fixed = False, pos = (0, 0), vel = (0, 0), acc = (0, 0)\<rparr>"

definition applyFriction :: "mass \<Rightarrow> mass" where
  "applyFriction m =
     (if fixed m then m
      else m\<lparr>acc := vadd (acc m) (vscale (- FRICTION_COEFFICIENT) (vel m))\<rparr>)"

definition mass_totalEnergy :: "mass \<Rightarrow> real" where
  "mass_totalEnergy m =
     (if fixed m then 0
      else (1 / 2) * mass_of m * ((fst (vel m))\<^sup>2 + (snd (vel m))\<^sup>2))"

definition distance :: "mass \<Rightarrow> mass \<Rightarrow> real" where
  "distance ma mb = vnorm (vsub (pos ma) (pos mb))"

definition angle :: "mass \<Rightarrow> mass \<Rightarrow> mass option \<Rightarrow> real" where
  "angle ma mb mc =
     (let v_ab = vsub (pos ma) (pos mb);
          ret = arctan2 (snd v_ab) (fst v_ab);
          ret = (case mc of
                   None \<Rightarrow> ret
                 | Some c \<Rightarrow>
                     (let v_cb = vsub (pos c) (pos mb)
                      in ret - arctan2 (snd v_cb) (fst v_cb)))
      in angleWrap ret)"

text \<open>
  \<^verbatim>\<open>_uv\<close>: the guard keeps the division away from a zero norm.
\<close>

definition uv :: "mass \<Rightarrow> mass \<Rightarrow> vec" where
  "uv ma mb =
     (let ab = vsub (pos ma) (pos mb)
      in if pos ma = pos mb then (1, 0) else vscale (1 / vnorm ab) ab)"

section \<open>Constraints\<close>

text \<open>
  Objects are identified by a reference. A constraint holds the references of its masses;
  Python compares masses and constraints by identity (neither class defines \<^verbatim>\<open>__eq__\<close>),
  which is equality of references here.
\<close>

type_synonym ref = nat

datatype constraint =
    ConstraintDistance (mass_a: ref) (mass_b: ref)
      (natural_length: real) (stiffness: real) (tag_id: int)
  | ConstraintAngleGlobal (mass_a: ref) (mass_b: ref)
      (natural_length: real) (stiffness: real) (tag_id: int)
  | ConstraintAngleLocal (mass_a: ref) (mass_b: ref) (mass_c: ref)
      (natural_length: real) (stiffness: real) (tag_id: int)

fun con_masses :: "constraint \<Rightarrow> ref list" where
  "con_masses (ConstraintDistance a b l k g) = [a, b]"
| "con_masses (ConstraintAngleGlobal a b l k g) = [a, b]"
| "con_masses (ConstraintAngleLocal a b c l k g) = [a, b, c]"

fun set_mass_a :: "ref \<Rightarrow> constraint \<Rightarrow> constraint" where
  "set_mass_a r (ConstraintDistance a b l k g) = ConstraintDistance r b l k g"
| "set_mass_a r (ConstraintAngleGlobal a b l k g) = ConstraintAngleGlobal r b l k g"
| "set_mass_a r (ConstraintAngleLocal a b c l k g) = ConstraintAngleLocal r b c l k g"

fun set_mass_b :: "ref \<Rightarrow> constraint \<Rightarrow> constraint" where
  "set_mass_b r (ConstraintDistance a b l k g) = ConstraintDistance a r l k g"
| "set_mass_b r (ConstraintAngleGlobal a b l k g) = ConstraintAngleGlobal a r l k g"
| "set_mass_b r (ConstraintAngleLocal a b c l k g) = ConstraintAngleLocal a r c l k g"

text \<open>Only a local-angle constraint has a third mass, so only it is asked for one.\<close>

fun set_mass_c :: "ref \<Rightarrow> constraint \<Rightarrow> constraint" where
  "set_mass_c r (ConstraintAngleLocal a b c l k g) = ConstraintAngleLocal a b r l k g"
| "set_mass_c r c = c"

fun con_length :: "(ref \<Rightarrow> mass) \<Rightarrow> constraint \<Rightarrow> real" where
  "con_length h (ConstraintDistance a b l k g) = distance (h a) (h b)"
| "con_length h (ConstraintAngleGlobal a b l k g) = angle (h a) (h b) None"
| "con_length h (ConstraintAngleLocal a b c l k g) = angle (h a) (h b) (Some (h c))"

fun displacement :: "(ref \<Rightarrow> mass) \<Rightarrow> constraint \<Rightarrow> real" where
  "displacement h (ConstraintDistance a b l k g) =
     con_length h (ConstraintDistance a b l k g) - l"
| "displacement h (ConstraintAngleGlobal a b l k g) =
     angleWrap (con_length h (ConstraintAngleGlobal a b l k g) - l)"
| "displacement h (ConstraintAngleLocal a b c l k g) =
     angleWrap (con_length h (ConstraintAngleLocal a b c l k g) - l)"

definition con_totalEnergy :: "(ref \<Rightarrow> mass) \<Rightarrow> constraint \<Rightarrow> real" where
  "con_totalEnergy h c = (1 / 2) * stiffness c * (displacement h c)\<^sup>2"

section \<open>The layout\<close>

record EnergyLog =
  log_t :: "real list"
  kinetic :: "real list"
  potential :: "real list"

text \<open>
  The state of the program: the mass and constraint objects that exist (\<open>mass_heap\<close>,
  \<open>con_heap\<close>, whether a layout owns them or not) and the fields of one
  \<^verbatim>\<open>SpatialLayout\<close>. \<open>ode_y\<close> and \<open>ode_t\<close> are the fields \<^verbatim>\<open>y\<close> and \<^verbatim>\<open>t\<close> of its
  \<^verbatim>\<open>RungeKutta45\<close>, whose \<^verbatim>\<open>f\<close> is always the layout's \<^verbatim>\<open>_stateDerivative\<close>.
  \<open>post_state_change_fcn\<close> tells whether a callable is registered; the callable belongs
  to the caller, and the model counts its calls in \<open>hook_calls\<close> and takes it to observe
  the layout only. Of \<^verbatim>\<open>_log\<close>, the entries \<^verbatim>\<open>'a'\<close> are kept; the others are wall-clock
  durations.
\<close>

record layout =
  mass_heap :: "ref \<Rightarrow> mass"
  con_heap :: "ref \<Rightarrow> constraint"
  constraints :: "ref list"
  masses :: "ref list"
  system_changed :: bool
  bounced_last_step :: bool
  energy_log :: "EnergyLog option"
  post_state_change_fcn :: bool
  hook_calls :: nat
  ode_y :: "real list"
  ode_t :: real
  log_a :: "real list"

definition update_mass :: "ref \<Rightarrow> (mass \<Rightarrow> mass) \<Rightarrow> layout \<Rightarrow> layout" where
  "update_mass r f s = s\<lparr>mass_heap := (mass_heap s)(r := f (mass_heap s r))\<rparr>"

subsection \<open>Energy log and change notification\<close>

definition EnergyLog_reset :: EnergyLog where
  "EnergyLog_reset = \<lparr>log_t = [], kinetic = [], potential = []\<rparr>"

definition EnergyLog_logEnergy :: "layout \<Rightarrow> EnergyLog \<Rightarrow> EnergyLog" where
  "EnergyLog_logEnergy s l =
     l\<lparr>log_t := log_t l @ [ode_t s],
       kinetic := kinetic l
         @ [sum_list (map (\<lambda>m. mass_totalEnergy (mass_heap s m)) (masses s))],
       potential := potential l
         @ [sum_list (map (\<lambda>c. con_totalEnergy (mass_heap s) (con_heap s c))
              (constraints s))]\<rparr>"

definition logEnergy :: "layout \<Rightarrow> layout" where
  "logEnergy s =
     (case energy_log s of
        None \<Rightarrow> s
      | Some l \<Rightarrow> s\<lparr>energy_log := Some (EnergyLog_logEnergy s l)\<rparr>)"

definition resetEnergyLog :: "layout \<Rightarrow> layout" where
  "resetEnergyLog s =
     (case energy_log s of
        None \<Rightarrow> s
      | Some l \<Rightarrow> s\<lparr>energy_log := Some EnergyLog_reset\<rparr>)"

definition markStateChanged :: "bool \<Rightarrow> bool \<Rightarrow> layout \<Rightarrow> layout" where
  "markStateChanged changed reset s =
     (let s = s\<lparr>system_changed := changed\<rparr>;
          s = (if reset then resetEnergyLog s else s);
          s = logEnergy s
      in if post_state_change_fcn s then s\<lparr>hook_calls := hook_calls s + 1\<rparr> else s)"

definition new_layout :: "(ref \<Rightarrow> mass) \<Rightarrow> (ref \<Rightarrow> constraint) \<Rightarrow> bool \<Rightarrow> layout" where
  "new_layout mh ch log_energy =
     \<lparr>mass_heap = mh, con_heap = ch, constraints = [], masses = [],
      system_changed = False, bounced_last_step = False,
      energy_log = (if log_energy then Some EnergyLog_reset else None),
      post_state_change_fcn = False, hook_calls = 0,
      ode_y = [], ode_t = 0, log_a = []\<rparr>"

subsection \<open>Adding masses and constraints\<close>

definition getMass :: "string \<Rightarrow> layout \<Rightarrow> ref option" where
  "getMass n s = find (\<lambda>m. name (mass_heap s m) = n) (masses s)"

definition addMass :: "ref \<Rightarrow> layout \<Rightarrow> layout" where
  "addMass m s =
     (if m \<notin> set (masses s)
      then markStateChanged True False (s\<lparr>masses := masses s @ [m]\<rparr>)
      else s)"

text \<open>
  One round of the first loop of \<^verbatim>\<open>addConstraint\<close>: the participant \<open>m\<close> at place \<open>i\<close>
  of constraint \<open>c\<close> is replaced by the owned mass of the same name, if there is one.
\<close>

definition rebind :: "ref \<Rightarrow> nat \<times> ref \<Rightarrow> layout \<Rightarrow> layout" where
  "rebind c im s =
     (case getMass (name (mass_heap s (snd im))) s of
        None \<Rightarrow> s
      | Some m_found \<Rightarrow>
          if fst im = 0 then s\<lparr>con_heap := (con_heap s)(c := set_mass_a m_found (con_heap s c))\<rparr>
          else if fst im = 1 then s\<lparr>con_heap := (con_heap s)(c := set_mass_b m_found (con_heap s c))\<rparr>
          else if fst im = 2 then s\<lparr>con_heap := (con_heap s)(c := set_mass_c m_found (con_heap s c))\<rparr>
          else s)"

definition addConstraint :: "ref \<Rightarrow> layout \<Rightarrow> layout" where
  "addConstraint c s =
     (let s = fold (rebind c) (enumerate 0 (con_masses (con_heap s c))) s;
          s = fold addMass (con_masses (con_heap s c)) s;
          s = s\<lparr>constraints := constraints s @ [c]\<rparr>
      in markStateChanged True False s)"

definition addConstraints :: "ref list \<Rightarrow> layout \<Rightarrow> layout" where
  "addConstraints cs s = fold addConstraint cs s"

text \<open>
  \<^verbatim>\<open>updateConstraints\<close>: \<^verbatim>\<open>cs[0]\<close> raises on an empty list, and each \<^verbatim>\<open>assert\<close> raises
  when its condition fails.
\<close>

definition updateConstraints :: "ref list \<Rightarrow> layout \<Rightarrow> error + layout" where
  "updateConstraints cs s =
     (case cs of
        [] \<Rightarrow> Inl IndexError
      | c0 # _ \<Rightarrow>
          if \<not> 0 \<le> tag_id (con_heap s c0) then Inl AssertionError
          else if \<not> list_all (\<lambda>c. tag_id (con_heap s c) = tag_id (con_heap s c0)) cs
          then Inl AssertionError
          else
            let tag = tag_id (con_heap s c0);
                s = s\<lparr>constraints := filter (\<lambda>c. tag_id (con_heap s c) \<noteq> tag) (constraints s)\<rparr>;
                s = s\<lparr>constraints := constraints s @ cs\<rparr>
            in Inr (markStateChanged True False s))"

subsection \<open>Invariants of the container\<close>

text \<open>Every mass that a constraint of the layout refers to is a mass of the layout.\<close>

definition constraints_owned :: "layout \<Rightarrow> bool" where
  "constraints_owned s =
     list_all (\<lambda>c. list_all (\<lambda>m. m \<in> set (masses s)) (con_masses (con_heap s c)))
       (constraints s)"

text \<open>No two masses of the layout have the same name.\<close>

definition names_unique :: "layout \<Rightarrow> bool" where
  "names_unique s = distinct (map (\<lambda>m. name (mass_heap s m)) (masses s))"

section \<open>Phase vectors\<close>

text \<open>
  One-dimensional numpy arrays are lists of reals. Arithmetic on two arrays needs equal
  lengths, or one array of length one, which numpy stretches; anything else raises
  \<^verbatim>\<open>ValueError\<close>.
\<close>

definition vec_add :: "real list \<Rightarrow> real list \<Rightarrow> real list" where
  "vec_add xs ys = map2 (+) xs ys"

definition vec_scale :: "real \<Rightarrow> real list \<Rightarrow> real list" where
  "vec_scale k xs = map ((*) k) xs"

definition np_binop ::
  "(real \<Rightarrow> real \<Rightarrow> real) \<Rightarrow> real list \<Rightarrow> real list \<Rightarrow> error + real list" where
  "np_binop f xs ys =
     (if length xs = length ys then Inr (map2 f xs ys)
      else if length xs = 1 then Inr (map (f (hd xs)) ys)
      else if length ys = 1 then Inr (map (\<lambda>x. f x (hd ys)) xs)
      else Inl ValueError)"

definition np_add :: "real list \<Rightarrow> real list \<Rightarrow> error + real list" where
  "np_add xs ys = np_binop (+) xs ys"

definition np_sub :: "real list \<Rightarrow> real list \<Rightarrow> error + real list" where
  "np_sub xs ys = np_binop (-) xs ys"

text \<open>\<^verbatim>\<open>y += v\<close> on an array: the result has the shape of \<open>y\<close>.\<close>

definition np_iadd :: "real list \<Rightarrow> real list \<Rightarrow> error + real list" where
  "np_iadd ys v =
     (if length v = length ys then Inr (map2 (+) ys v)
      else if length v = 1 then Inr (map (\<lambda>x. x + hd v) ys)
      else Inl ValueError)"

section \<open>The integrator\<close>

text \<open>
  \<^verbatim>\<open>RungeKutta45.integrate\<close>, for any derivative function \<open>f\<close>. The function may fail
  and may change a state \<open>\<sigma>\<close> of its own (the layout's \<^verbatim>\<open>_stateDerivative\<close> writes into
  the masses). The arguments \<open>y\<close> and \<open>t\<close> are the fields of the integrator before the
  call; the result holds the fields after it, \<open>y\<close> being also the value returned.
\<close>

definition integrate ::
  "(real \<Rightarrow> real list \<Rightarrow> '\<sigma> \<Rightarrow> error + (real list \<times> '\<sigma>))
     \<Rightarrow> real list \<Rightarrow> real \<Rightarrow> real \<Rightarrow> '\<sigma> \<Rightarrow> error + (real list \<times> real \<times> '\<sigma>)" where
  "integrate f y t t_new \<sigma> =
     bindE (f t y \<sigma>) (\<lambda>(k1, \<sigma>).
     bindE (np_add y (vec_scale (INTEGRATION_DT * (1 / 2)) k1)) (\<lambda>y1.
     bindE (f t y1 \<sigma>) (\<lambda>(k2, \<sigma>).
     bindE (np_add y (vec_scale (INTEGRATION_DT * (1 / 2)) k2)) (\<lambda>y2.
     bindE (f t y2 \<sigma>) (\<lambda>(k3, \<sigma>).
     bindE (np_add y (vec_scale INTEGRATION_DT k3)) (\<lambda>y3.
     bindE (f t y3 \<sigma>) (\<lambda>(k4, \<sigma>).
     bindE (np_add k1 (vec_scale 2 k2)) (\<lambda>s1.
     bindE (np_add s1 (vec_scale 2 k3)) (\<lambda>s2.
     bindE (np_add s2 k4) (\<lambda>s3.
     bindE (np_iadd y (map (\<lambda>x. x * INTEGRATION_DT) (vec_scale (1 / 6) s3))) (\<lambda>y'.
     Inr (y', t_new, \<sigma>))))))))))))"

section \<open>Forces and the state derivative\<close>

text \<open>
  \<^verbatim>\<open>_pullState\<close>: \<^verbatim>\<open>np.concatenate\<close> raises \<^verbatim>\<open>ValueError\<close> on an empty list of arrays.
\<close>

definition pullState :: "layout \<Rightarrow> error + real list" where
  "pullState s =
     (if masses s = [] then Inl ValueError
      else Inr (concat (map (\<lambda>m. [fst (pos (mass_heap s m)), snd (pos (mass_heap s m)),
                                    fst (vel (mass_heap s m)), snd (vel (mass_heap s m))])
                    (masses s))))"

text \<open>
  \<^verbatim>\<open>_pushState\<close>. The slices of a vector that is too short are short arrays, and the
  arithmetic on them raises later; a vector that is too long does not fit the derivative
  in the integrator. Both end the call that pushed the vector, and the model ends it
  here.
\<close>

definition pushState :: "real list \<Rightarrow> layout \<Rightarrow> error + layout" where
  "pushState yv s =
     (if length yv \<noteq> 4 * length (masses s) then Inl ShapeError
      else Inr (fold (\<lambda>im s. update_mass (snd im)
                          (\<lambda>x. x\<lparr>pos := (yv ! (fst im * 4), yv ! (fst im * 4 + 1)),
                                  vel := (yv ! (fst im * 4 + 2), yv ! (fst im * 4 + 3))\<rparr>) s)
                  (enumerate 0 (masses s)) s))"

fun foldE :: "('a \<Rightarrow> 's \<Rightarrow> error + 's) \<Rightarrow> 'a list \<Rightarrow> 's \<Rightarrow> error + 's" where
  "foldE f [] s = Inr s"
| "foldE f (x # xs) s = bindE (f x s) (foldE f xs)"

definition vdiv :: "vec \<Rightarrow> real \<Rightarrow> vec" where
  "vdiv a k = (fst a / k, snd a / k)"

text \<open>
  \<^verbatim>\<open>if not m.fixed: m.acc += v\<close>. The vector is \<open>None\<close> when its computation divided by
  zero; it reaches the state only if the mass is not fixed.
\<close>

definition add_acc :: "ref \<Rightarrow> vec option \<Rightarrow> layout \<Rightarrow> error + layout" where
  "add_acc r v s =
     (if fixed (mass_heap s r) then Inr s
      else case v of
             None \<Rightarrow> Inl NonFinite
           | Some f \<Rightarrow> Inr (update_mass r (\<lambda>x. x\<lparr>acc := vadd (acc x) f\<rparr>) s))"

text \<open>
  The force of an angular constraint on the pair \<open>(ma, mb)\<close>:
  \<^verbatim>\<open>-stiffness * displacement / _distance(a, b) * _orthog(_uv(a, b))\<close>, with a division
  by the distance, which is zero when the two positions are equal.
\<close>

definition angular_force :: "real \<Rightarrow> real \<Rightarrow> mass \<Rightarrow> mass \<Rightarrow> vec option" where
  "angular_force k disp ma mb =
     (if distance ma mb = 0 then None
      else Some (vscale (- k * disp / distance ma mb) (orthog (uv ma mb))))"

fun applyForce :: "constraint \<Rightarrow> layout \<Rightarrow> error + layout" where
  "applyForce (ConstraintDistance a b l k g) s =
     (let h = mass_heap s;
          force_vector = vscale (- k * displacement h (ConstraintDistance a b l k g))
                           (uv (h a) (h b))
      in bindE (add_acc a (Some (vdiv force_vector (mass_of (h a)))) s) (\<lambda>s.
         add_acc b (Some (vdiv (vneg force_vector) (mass_of (h b)))) s))"
| "applyForce (ConstraintAngleGlobal a b l k g) s =
     (let h = mass_heap s;
          force_vector = angular_force k (displacement h (ConstraintAngleGlobal a b l k g))
                           (h a) (h b)
      in bindE (add_acc a (map_option (\<lambda>f. vdiv f (mass_of (h a))) force_vector) s) (\<lambda>s.
         add_acc b (map_option (\<lambda>f. vdiv (vneg f) (mass_of (h b))) force_vector) s))"
| "applyForce (ConstraintAngleLocal a b c l k g) s =
     (let h = mass_heap s;
          disp = displacement h (ConstraintAngleLocal a b c l k g);
          force_vector_a = angular_force k disp (h a) (h b);
          force_vector_c = map_option vneg (angular_force k disp (h c) (h b));
          acc_a = map_option (\<lambda>f. vdiv f (mass_of (h a))) force_vector_a;
          acc_c = map_option (\<lambda>f. vdiv f (mass_of (h c))) force_vector_c;
          acc_b = (case (acc_a, acc_c) of
                     (Some fa, Some fc) \<Rightarrow> Some (vadd (vneg fa) (vneg fc))
                   | _ \<Rightarrow> None)
      in bindE (add_acc a acc_a s) (\<lambda>s.
         bindE (add_acc b acc_b s) (\<lambda>s.
         add_acc c acc_c s)))"

definition refreshForces :: "layout \<Rightarrow> error + layout" where
  "refreshForces s =
     (let s = fold (\<lambda>m s. update_mass m (\<lambda>x. applyFriction (x\<lparr>acc := (0, 0)\<rparr>)) s)
                (masses s) s
      in foldE (\<lambda>c s. applyForce (con_heap s c) s) (constraints s) s)"

definition stateDerivative :: "real \<Rightarrow> real list \<Rightarrow> layout \<Rightarrow> error + (real list \<times> layout)" where
  "stateDerivative t yv s =
     bindE (pushState yv s) (\<lambda>s.
     bindE (refreshForces s) (\<lambda>s.
     if masses s = [] then Inl ValueError
     else Inr (concat (map (\<lambda>m. [fst (vel (mass_heap s m)), snd (vel (mass_heap s m)),
                                   fst (acc (mass_heap s m)), snd (acc (mass_heap s m))])
                   (masses s)), s)))"

section \<open>Safe state application\<close>

text \<open>
  \<^verbatim>\<open>_stepSafely\<close>. The loop may run for ever, so the function is partial: \<open>None\<close> is a
  call that does not return. \<open>m_desired\<close> is a mass of the call's own; only its position
  is used.
\<close>

partial_function (option) stepSafely :: "ref \<Rightarrow> vec \<Rightarrow> layout \<Rightarrow> (error + layout) option" where
  "stepSafely m step s =
     (let desired = vadd (pos (mass_heap s m)) step
      in case find (\<lambda>x. x \<noteq> m
                       \<and> vnorm (vsub desired (pos (mass_heap s x))) < SAFE_DISTANCE)
                (masses s) of
           None \<Rightarrow>
             Some (Inr (update_mass m (\<lambda>x. x\<lparr>pos := vadd (pos x) step\<rparr>) s))
         | Some m_unsafe \<Rightarrow>
             (case firstCircleIntersect (pos (mass_heap s m)) desired
                     (pos (mass_heap s m_unsafe)) SAFE_DISTANCE of
                Inl e \<Rightarrow> Some (Inl e)
              | Inr intersect \<Rightarrow>
                  (let bounce_direction_m =
                         reflectedDirection (pos (mass_heap s m)) intersect
                           (pos (mass_heap s m_unsafe));
                       bounce_direction_mu =
                         reflectedDirection (pos (mass_heap s m_unsafe)) intersect
                           (pos (mass_heap s m));
                       bounced_position =
                         reflectedPosition (pos (mass_heap s m)) step intersect
                           bounce_direction_m;
                       s = update_mass m
                             (\<lambda>x. x\<lparr>vel := rotateVectorTo (vel x) bounce_direction_m\<rparr>) s;
                       s = update_mass m_unsafe
                             (\<lambda>x. x\<lparr>vel := rotateVectorTo (vel x) bounce_direction_mu\<rparr>) s;
                       s = update_mass m (\<lambda>x. x\<lparr>pos := intersect\<rparr>) s;
                       step = vsub bounced_position (pos (mass_heap s m));
                       s = s\<lparr>bounced_last_step := True\<rparr>
                   in stepSafely m step s)))"

fun stepAll :: "(nat \<times> ref) list \<Rightarrow> real list \<Rightarrow> layout \<Rightarrow> (error + layout) option" where
  "stepAll [] y_delta s = Some (Inr s)"
| "stepAll (im # ims) y_delta s =
     (case stepSafely (snd im) (y_delta ! (fst im * 4), y_delta ! (fst im * 4 + 1)) s of
        None \<Rightarrow> None
      | Some (Inl e) \<Rightarrow> Some (Inl e)
      | Some (Inr s) \<Rightarrow> stepAll ims y_delta s)"

definition pushStateSafely :: "real list \<Rightarrow> real list \<Rightarrow> layout \<Rightarrow> (error + layout) option" where
  "pushStateSafely y_a y_b s =
     (case pushState y_a s of
        Inl e \<Rightarrow> Some (Inl e)
      | Inr s \<Rightarrow>
          (case np_sub y_b y_a of
             Inl e \<Rightarrow> Some (Inl e)
           | Inr y_delta \<Rightarrow>
               if length y_b \<noteq> 4 * length (masses s) then Some (Inl ShapeError)
               else
                 let s = s\<lparr>bounced_last_step := False\<rparr>;
                     s = fold (\<lambda>im s. update_mass (snd im)
                                 (\<lambda>x. x\<lparr>vel := (y_b ! (fst im * 4 + 2), y_b ! (fst im * 4 + 3))\<rparr>) s)
                           (enumerate 0 (masses s)) s
                 in stepAll (enumerate 0 (masses s)) y_delta s))"

section \<open>The step driver\<close>

text \<open>
  The first statement of \<^verbatim>\<open>step\<close>: with the system-changed flag set, the integrator is
  given the state pulled from the masses, and the flag is cleared.
\<close>

definition reseed :: "layout \<Rightarrow> error + layout" where
  "reseed s =
     (if system_changed s
      then bindE (pullState s) (\<lambda>yv. Inr (s\<lparr>ode_y := yv, system_changed := False\<rparr>))
      else Inr s)"

definition step :: "layout \<Rightarrow> (error + layout) option" where
  "step s =
     (case reseed s of
        Inl e \<Rightarrow> Some (Inl e)
      | Inr s \<Rightarrow>
          (let state = ode_y s
           in case integrate stateDerivative (ode_y s) (ode_t s)
                     (ode_t s + INTEGRATION_DT) s of
                Inl e \<Rightarrow> Some (Inl e)
              | Inr (state_next, t_new, s) \<Rightarrow>
                  (let s = s\<lparr>ode_y := state_next, ode_t := t_new\<rparr>;
                       s = s\<lparr>log_a := log_a s @ [ode_t s]\<rparr>
                   in case pushStateSafely state state_next s of
                        None \<Rightarrow> None
                      | Some (Inl e) \<Rightarrow> Some (Inl e)
                      | Some (Inr s) \<Rightarrow>
                          Some (Inr (markStateChanged (bounced_last_step s) False s)))))"

section \<open>Example layouts\<close>

text \<open>
  Scenario S6: five constraints between two masses, the first three tagged 7 and the
  other two tagged 3; constraint 5 is a fresh one tagged 7.
\<close>

definition ex_tags :: layout where
  "ex_tags =
     (new_layout (\<lambda>r. Mass (if r = 0 then ''a'' else ''b''))
        (\<lambda>r. ConstraintDistance 0 1 1 1 (if r < 3 then 7 else if r < 5 then 3 else 7))
        True)
     \<lparr>masses := [0, 1], constraints := [0, 1, 2, 3, 4]\<rparr>"

text \<open>
  Three masses 0, 1, 2 added in this order and one distance constraint between masses 0
  and 2 (every constraint reference denotes it).
\<close>

definition ex_order_ch :: "ref \<Rightarrow> constraint" where
  "ex_order_ch = (\<lambda>r. ConstraintDistance 0 2 1 1 (- 1))"

text \<open>
  Two mass objects named \<open>a\<close> (references 0 and 1) and one named \<open>b\<close> (every other
  reference); a distance constraint with tag 0 between the objects 1 and 2; an empty
  layout, and the layout that owns the mass object 0 only.
\<close>

definition ex_names :: layout where
  "ex_names =
     new_layout (\<lambda>r. Mass (if r < 2 then ''a'' else ''b''))
       (\<lambda>r. ConstraintDistance 1 2 1 1 0) True"

definition ex_owner :: layout where
  "ex_owner = addMass 0 ex_names"


text \<open>
  One free mass named \<open>a\<close> (reference 0) with the given position, velocity and
  acceleration, and no constraint.
\<close>

definition ex_one :: "vec \<Rightarrow> vec \<Rightarrow> vec \<Rightarrow> layout" where
  "ex_one p v w =
     (new_layout ((\<lambda>r. Mass ''a'')(0 := \<lparr>name = ''a'', fixed = False, pos = p, vel = v, acc = w\<rparr>))
        (\<lambda>r. ConstraintDistance 0 1 1 1 (- 1)) True)
     \<lparr>masses := [0], system_changed := True\<rparr>"

text \<open>
  Two masses at rest and no constraint: mass 0 at the origin, fixed or free as the
  argument says, and the free mass 1 at \<open>(0.1, 0)\<close>, both added with \<open>addMass\<close> to an empty
  layout.
\<close>

definition ex_pair :: "bool \<Rightarrow> layout" where
  "ex_pair fx =
     addMass 1 (addMass 0
       (new_layout
          ((\<lambda>r. (Mass ''b'')\<lparr>pos := (1 / 10, 0)\<rparr>)
             (0 := \<lparr>name = ''a'', fixed = fx, pos = (0, 0), vel = (0, 0), acc = (0, 0)\<rparr>))
          (\<lambda>r. ConstraintDistance 0 1 1 1 (- 1)) False))"

text \<open>
  The phase vector of \<open>ex_pair\<close>, and the layouts in which the two masses are where
  \<open>ex_pair\<close> has them, at rest.
\<close>

definition ex_pair_y :: "real list" where
  "ex_pair_y = [0, 0, 0, 0, 1 / 10, 0, 0, 0]"

definition pair_at_rest :: "bool \<Rightarrow> layout \<Rightarrow> bool" where
  "pair_at_rest fx s \<longleftrightarrow> masses s = [0, 1] \<and> constraints s = []
     \<and> mass_heap s = ((\<lambda>r. (Mass ''b'')\<lparr>pos := (1 / 10, 0)\<rparr>)
             (0 := \<lparr>name = ''a'', fixed = fx, pos = (0, 0), vel = (0, 0), acc = (0, 0)\<rparr>))"

text \<open>
  Two free masses \<open>a\<close> and \<open>b\<close> at the origin, joined by a distance constraint of natural
  length 1 that \<open>addConstraint\<close> brought into an empty layout; the system-changed flag
  has been cleared with \<open>markStateChanged\<close>.
\<close>

definition ex_two :: layout where
  "ex_two =
     markStateChanged False False
       (addConstraint 0
          (new_layout (\<lambda>r. Mass (if r = 0 then ''a'' else ''b''))
             (\<lambda>r. ConstraintDistance 0 1 1 1 (- 1)) True))"

text \<open>
  Three free masses \<open>a\<close>, \<open>b\<close>, \<open>c\<close> at the origin and the distance constraints of natural
  length 1 between \<open>a\<close> and \<open>b\<close>, \<open>b\<close> and \<open>c\<close>, \<open>c\<close> and \<open>a\<close>, added with \<open>addConstraints\<close>
  to an empty layout.
\<close>

definition ex_triangle :: layout where
  "ex_triangle =
     addConstraints [0, 1, 2]
       (new_layout (\<lambda>r. Mass (if r = 0 then ''a'' else if r = 1 then ''b'' else ''c''))
          (\<lambda>r. if r = 0 then ConstraintDistance 0 1 1 1 (- 1)
                else if r = 1 then ConstraintDistance 1 2 1 1 (- 1)
                else ConstraintDistance 2 0 1 1 (- 1))
          True)"

section \<open>Initial placement\<close>

subsection \<open>Ordering phase\<close>

text \<open>
  \<^verbatim>\<open>len(set(c.masses()).intersection(self._masses))\<close>: how many different masses of
  constraint \<open>c\<close> are in the list \<open>mss\<close> of masses not placed yet.
\<close>

definition unplaced_count :: "(ref \<Rightarrow> constraint) \<Rightarrow> ref list \<Rightarrow> ref \<Rightarrow> nat" where
  "unplaced_count ch mss c =
     length (remdups (filter (\<lambda>m. m \<in> set mss) (con_masses (ch c))))"

text \<open>
  The list \<^verbatim>\<open>scores\<close>, with one entry for each unplaced mass \<open>m\<close>. As in the source, the
  entry is a sum over the constraints in which \<open>m\<close> does not occur.
\<close>

definition scores :: "(ref \<Rightarrow> constraint) \<Rightarrow> ref list \<Rightarrow> ref list \<Rightarrow> nat list" where
  "scores ch cons mss =
     map (\<lambda>m. sum_list (map (\<lambda>c. if unplaced_count ch mss c = 1 then 1 else 0) cons)) mss"

text \<open>\<^verbatim>\<open>list.index\<close>, for an element that is in the list.\<close>

fun index_of :: "'a \<Rightarrow> 'a list \<Rightarrow> nat" where
  "index_of x [] = 0"
| "index_of x (y # ys) = (if x = y then 0 else Suc (index_of x ys))"

definition m_best :: "(ref \<Rightarrow> constraint) \<Rightarrow> ref list \<Rightarrow> ref list \<Rightarrow> ref" where
  "m_best ch cons mss =
     (let sc = scores ch cons mss in mss ! index_of (min_list sc) sc)"

lemma index_of_less: "x \<in> set xs \<Longrightarrow> index_of x xs < length xs"
  by (induction xs) auto

lemma min_list_in_set: "xs \<noteq> [] \<Longrightarrow> min_list (xs :: nat list) \<in> set xs"
proof (induction xs)
  case Nil
  then show ?case by simp
next
  case (Cons x xs)
  then show ?case by (cases xs) (auto simp: min_def)
qed

lemma m_best_in_set: "mss \<noteq> [] \<Longrightarrow> m_best ch cons mss \<in> set mss"
proof -
  assume ne: "mss \<noteq> []"
  then have "scores ch cons mss \<noteq> []" by (simp add: scores_def)
  then have "index_of (min_list (scores ch cons mss)) (scores ch cons mss)
               < length (scores ch cons mss)"
    by (intro index_of_less min_list_in_set)
  then show ?thesis by (simp add: m_best_def Let_def scores_def)
qed

text \<open>
  The \<^verbatim>\<open>while\<close> loop of \<^verbatim>\<open>initialiseState\<close>, on the lists \<^verbatim>\<open>self._constraints\<close>,
  \<^verbatim>\<open>self._masses\<close>, \<^verbatim>\<open>ms\<close> and \<^verbatim>\<open>cs\<close>. With constraints left and no mass left,
  \<^verbatim>\<open>min(scores)\<close> is the minimum of an empty list and raises \<^verbatim>\<open>ValueError\<close>.
\<close>

function order_loop ::
  "(ref \<Rightarrow> constraint) \<Rightarrow> ref list \<Rightarrow> ref list \<Rightarrow> ref list \<Rightarrow> ref list
     \<Rightarrow> error + (ref list \<times> ref list)" where
  "order_loop ch cons mss ms cs =
     (if cons = [] \<and> mss = [] then Inr (ms, cs)
      else if mss = [] then Inl ValueError
      else
        let b = m_best ch cons mss;
            ms = ms @ [b];
            mss = remove1 b mss;
            c_placed = filter (\<lambda>c. unplaced_count ch mss c = 0) cons;
            cs = cs @ c_placed;
            cons = fold remove1 c_placed cons
        in order_loop ch cons mss ms cs)"
  by pat_completeness auto
termination
proof (relation "measure (\<lambda>(ch, cons, mss, ms, cs). length mss)")
  show "wf (measure (\<lambda>(ch, cons, mss, ms, cs). length mss))" by simp
next
  fix ch :: "ref \<Rightarrow> constraint" and cons mss ms cs :: "ref list"
    and b ms' mss' c_placed cs' cons'
  assume "\<not> (cons = [] \<and> mss = [])" and "mss \<noteq> []"
    and b: "b = m_best ch cons mss" and mss': "mss' = remove1 b mss"
  from \<open>mss \<noteq> []\<close> b have "b \<in> set mss" by (simp add: m_best_in_set)
  then have "length (remove1 b mss) < length mss"
    by (simp add: length_remove1) (cases mss; simp)
  with mss' show "((ch, cons', mss', ms', cs'), ch, cons, mss, ms, cs)
                    \<in> measure (\<lambda>(ch, cons, mss, ms, cs). length mss)"
    by simp
qed

declare order_loop.simps [simp del]

text \<open>
  The score that the comment in the source describes: the number of pending constraints
  that placing \<open>m\<close> would complete, those whose only unplaced mass is \<open>m\<close>.
\<close>

definition completion_score :: "(ref \<Rightarrow> constraint) \<Rightarrow> ref list \<Rightarrow> ref list \<Rightarrow> ref \<Rightarrow> nat" where
  "completion_score ch cons mss m =
     length (filter (\<lambda>c. remdups (filter (\<lambda>x. x \<in> set mss) (con_masses (ch c))) = [m]) cons)"

subsection \<open>Placement suggestions\<close>

text \<open>
  The dictionary that \<^verbatim>\<open>placementSuggestion\<close> returns: the reference mass under
  \<^verbatim>\<open>'mass'\<close> and, where the key is present, the pairs under \<^verbatim>\<open>'r'\<close> and \<^verbatim>\<open>'th'\<close>. The empty
  dictionary is \<open>None\<close>.
\<close>

record suggestion =
  s_mass :: ref
  s_r :: "(real \<times> real) option"
  s_th :: "(real \<times> real) option"

definition SEARCH_DEPTH :: nat where "SEARCH_DEPTH = 20"

text \<open>
  The bisection of \<^verbatim>\<open>ConstraintAngleLocal.placementSuggestion\<close>: \<open>n\<close> rounds are left,
  \<open>lo\<close> and \<open>hi\<close> are the bounds \<^verbatim>\<open>a\<close> and \<^verbatim>\<open>b\<close>, and the result is the last \<^verbatim>\<open>mid\<close>.
\<close>

fun bisect :: "mass \<Rightarrow> mass \<Rightarrow> real \<Rightarrow> real \<Rightarrow> nat \<Rightarrow> real \<Rightarrow> real \<Rightarrow> real \<Rightarrow> real" where
  "bisect ma mc r l 0 lo hi mid = mid"
| "bisect ma mc r l (Suc n) lo hi mid0 =
     (let mid = (lo + hi) / 2;
          dummy = (Mass ''dummy'')\<lparr>pos := vadd (pos ma) (vscale r (cos mid, sin mid))\<rparr>;
          err = angle ma dummy (Some mc) - l
      in if 0 < err then bisect ma mc r l n lo mid mid
         else bisect ma mc r l n mid hi mid)"

fun placementSuggestion :: "(ref \<Rightarrow> mass) \<Rightarrow> constraint \<Rightarrow> ref \<Rightarrow> suggestion option" where
  "placementSuggestion h (ConstraintDistance a b l k g) m =
     (if m = a then Some \<lparr>s_mass = b, s_r = Some (l, k), s_th = None\<rparr>
      else if m = b then Some \<lparr>s_mass = a, s_r = Some (l, k), s_th = None\<rparr>
      else None)"
| "placementSuggestion h (ConstraintAngleGlobal a b l k g) m =
     (if m = a then Some \<lparr>s_mass = b, s_r = None, s_th = Some (l, k)\<rparr>
      else if m = b then Some \<lparr>s_mass = a, s_r = None, s_th = Some (angleWrap (l + pi), k)\<rparr>
      else None)"
| "placementSuggestion h (ConstraintAngleLocal a b c l k g) m =
     (if m = a
      then Some \<lparr>s_mass = b, s_r = None,
                 s_th = Some (angleWrap (angle (h c) (h b) None + l), k)\<rparr>
      else if m = b
      then (let r = (1 - \<bar>l\<bar> / (2 * pi)) * distance (h a) (h c);
                mid = bisect (h a) (h c) r l SEARCH_DEPTH (- pi) pi 0
            in Some \<lparr>s_mass = a, s_r = Some (r, k / 2), s_th = Some (mid, k / 2)\<rparr>)
      else if m = c
      then Some \<lparr>s_mass = b, s_r = None,
                 s_th = Some (angleWrap (angle (h a) (h b) None - l), k)\<rparr>
      else None)"

subsection \<open>Merging the suggestions\<close>

text \<open>\<^verbatim>\<open>itertools.groupby\<close>: the runs of neighbours with the same key.\<close>

function group_by :: "('a \<Rightarrow> 'k) \<Rightarrow> 'a list \<Rightarrow> 'a list list" where
  "group_by f [] = []"
| "group_by f (x # xs) =
     (x # takeWhile (\<lambda>y. f y = f x) xs) # group_by f (dropWhile (\<lambda>y. f y = f x) xs)"
  by pat_completeness auto
termination
  by (relation "measure (\<lambda>(f, xs). length xs)")
     (auto simp: length_dropWhile_le less_Suc_eq_le)

fun mapE :: "('a \<Rightarrow> error + 'b) \<Rightarrow> 'a list \<Rightarrow> error + 'b list" where
  "mapE f [] = Inr []"
| "mapE f (x # xs) = bindE (f x) (\<lambda>y. bindE (mapE f xs) (\<lambda>ys. Inr (y # ys)))"

text \<open>
  One group \<open>g\<close> of suggestions relative to masses of one name becomes one suggestion.
  The merged radius divides by the sum of the weights; with a sum of zero the result is
  \<open>NonFinite\<close>. That is no exception: the source goes on with \<^verbatim>\<open>nan\<close> or \<^verbatim>\<open>inf\<close>, and
  so does \<open>place_all\<close> below.
\<close>

definition merge_group :: "suggestion list \<Rightarrow> error + suggestion" where
  "merge_group g =
     (let rs = List.map_filter s_r g;
          ths = List.map_filter s_th g;
          th = (if ths = [] then None
                else Some (arctan2 (sum_list (map (\<lambda>p. sin (fst p) * snd p) ths))
                                   (sum_list (map (\<lambda>p. cos (fst p) * snd p) ths)),
                           sum_list (map snd ths)))
      in if rs \<noteq> [] \<and> sum_list (map snd rs) = 0 then Inl NonFinite
         else Inr \<lparr>s_mass = s_mass (hd g),
                   s_r = (if rs = [] then None
                          else Some (sum_list (map (\<lambda>p. fst p * snd p) rs) / sum_list (map snd rs),
                                     sum_list (map snd rs))),
                   s_th = th\<rparr>)"

text \<open>
  The sort key \<^verbatim>\<open>('r' in x and 'th' in x, 'th' in x)\<close>, a pair of booleans that Python
  orders with \<^verbatim>\<open>False\<close> first, as a number with the same order.
\<close>

definition merged_key :: "suggestion \<Rightarrow> nat" where
  "merged_key p =
     (if s_r p \<noteq> None \<and> s_th p \<noteq> None then 2 else 0) + (if s_th p \<noteq> None then 1 else 0)"

text \<open>
  One round of the loop over the merged suggestions. \<open>prev\<close> holds \<^verbatim>\<open>suggested\<close> and \<^verbatim>\<open>w\<close>
  of the round before: a suggestion with neither key assigns neither variable, and the
  next statement reads them (an unbound name in the first round). The two divisions, by
  the norm of \<^verbatim>\<open>placement - p['mass'].pos\<close> and by \<^verbatim>\<open>weight + w\<close>, give \<open>NonFinite\<close> on a
  divisor of zero: the placement is \<^verbatim>\<open>nan\<close> or \<^verbatim>\<open>inf\<close> from there on, in every later round
  too, and the source assigns it to the mass.
\<close>

definition place_step ::
  "(ref \<Rightarrow> mass) \<Rightarrow> suggestion \<Rightarrow> vec \<times> real \<times> (vec \<times> real) option
     \<Rightarrow> error + (vec \<times> real \<times> (vec \<times> real) option)" where
  "place_step h p st =
     (let placement = fst st; weight = fst (snd st); prev = snd (snd st);
          ref_pos = pos (h (s_mass p));
          sw = (case (s_r p, s_th p) of
                  (Some r, Some th) \<Rightarrow>
                    Inr (vadd ref_pos (fst r * cos (fst th), fst r * sin (fst th)),
                         snd r + snd th)
                | (None, Some th) \<Rightarrow>
                    (let u = (cos (fst th), sin (fst th));
                         d = vsub placement ref_pos;
                         r = fst d * fst u + snd d * snd u
                     in Inr (vadd ref_pos (vscale (if r < 1 \<or> weight = 0 then 1 else r) u),
                             snd th))
                | (Some r, None) \<Rightarrow>
                    (if weight = 0 then Inr (vadd ref_pos (vscale (fst r) (1, 0)), snd r)
                     else if vnorm (vsub placement ref_pos) = 0 then Inl NonFinite
                     else Inr (vadd ref_pos
                                 (vscale (fst r)
                                    (vdiv (vsub placement ref_pos)
                                       (vnorm (vsub placement ref_pos)))),
                               snd r))
                | (None, None) \<Rightarrow>
                    (case prev of None \<Rightarrow> Inl NameError | Some q \<Rightarrow> Inr q))
      in bindE sw (\<lambda>q.
           if weight + snd q = 0 then Inl NonFinite
           else Inr (vdiv (vadd (vscale weight placement) (vscale (snd q) (fst q)))
                       (weight + snd q),
                     weight + snd q, Some q)))"

subsection \<open>Placement phase\<close>

text \<open>
  The position that the second loop of \<^verbatim>\<open>initialiseState\<close> computes for the mass \<open>m\<close>
  from the suggestions \<open>ps\<close> of its completed constraints.
\<close>

definition placement_of :: "layout \<Rightarrow> suggestion list \<Rightarrow> error + vec" where
  "placement_of s ps =
     (let F_MASS = (\<lambda>p. name (mass_heap s (s_mass p)))
      in bindE (mapE merge_group (group_by F_MASS (sort_key F_MASS ps))) (\<lambda>ps_merged.
         bindE (foldE (place_step (mass_heap s)) (sort_key merged_key ps_merged)
                  ((0, 0), 0, None)) (\<lambda>st.
         Inr (fst st))))"

text \<open>
  The second loop of \<^verbatim>\<open>initialiseState\<close>, over the ordered masses \<open>ms\<close>, with the placed
  constraints \<open>cs\<close> that are not back in the layout yet. Printing a suggestion reads its
  key \<^verbatim>\<open>'mass'\<close>, which an empty suggestion does not have.

  A division by zero does not end the loop: the mass gets a position that is not a pair
  of reals, and the loop goes on. The list \<open>u\<close> holds the masses whose position the model
  does not follow: a mass whose placement divided by zero (its position is \<^verbatim>\<open>nan\<close> or
  \<^verbatim>\<open>inf\<close>), and every mass placed from a constraint that has such a mass among its
  masses. Which masses and constraints the loop moves, and whether it raises, does not
  depend on any position, and the model follows that in every run.
\<close>

fun place_all :: "ref list \<Rightarrow> ref list \<Rightarrow> ref list \<Rightarrow> layout \<Rightarrow> error + (ref list \<times> layout)" where
  "place_all [] cs u s = Inr (u, s)"
| "place_all (m # ms) cs u s =
     (let cs_complete =
            filter (\<lambda>c. list_all (\<lambda>x. x \<in> set (masses s @ [m])) (con_masses (con_heap s c))) cs;
          ps = map (\<lambda>c. placementSuggestion (mass_heap s) (con_heap s c) m) cs_complete
      in if None \<in> set ps then Inl KeyError
         else
           let ps = List.map_filter (\<lambda>p. p) ps;
               placement =
                 (if list_ex (\<lambda>c. list_ex (\<lambda>x. x \<in> set u) (con_masses (con_heap s c)))
                       cs_complete
                  then Inl NonFinite
                  else placement_of s ps);
               cs' = filter (\<lambda>c. c \<notin> set cs_complete) cs
           in case placement of
                Inr p \<Rightarrow>
                  (let s = update_mass m (\<lambda>x. x\<lparr>pos := p\<rparr>) s;
                       s = s\<lparr>masses := masses s @ [m]\<rparr>;
                       s = s\<lparr>constraints := constraints s @ cs_complete\<rparr>
                   in place_all ms cs' (removeAll m u) s)
              | Inl e \<Rightarrow>
                  if e = NonFinite
                  then (let s = s\<lparr>masses := masses s @ [m]\<rparr>;
                            s = s\<lparr>constraints := constraints s @ cs_complete\<rparr>
                        in place_all ms cs' (u @ [m]) s)
                  else Inl e)"

text \<open>
  \<^verbatim>\<open>initialiseState\<close>. A call that returns gives the layout and the list of the masses
  whose position is not followed, empty when no division by zero took place.
\<close>

definition initialiseState :: "layout \<Rightarrow> error + (ref list \<times> layout)" where
  "initialiseState s =
     bindE (order_loop (con_heap s) (constraints s) (masses s) [] []) (\<lambda>oc.
       place_all (fst oc) (snd oc) [] (s\<lparr>masses := [], constraints := []\<rparr>))"

text \<open>
  The fields that \<^verbatim>\<open>initialiseState\<close> does not assign: everything but the masses, the
  constraints and the mass objects.
\<close>

definition same_control :: "layout \<Rightarrow> layout \<Rightarrow> bool" where
  "same_control s s' \<longleftrightarrow>
     system_changed s' = system_changed s \<and> bounced_last_step s' = bounced_last_step s
     \<and> energy_log s' = energy_log s \<and> post_state_change_fcn s' = post_state_change_fcn s
     \<and> hook_calls s' = hook_calls s \<and> ode_y s' = ode_y s \<and> ode_t s' = ode_t s
     \<and> log_a s' = log_a s \<and> con_heap s' = con_heap s"

section \<open>Angle wrapping\<close>

lemma py_mod_range:
  assumes "0 < b"
  shows "0 \<le> py_mod a b \<and> py_mod a b < b"
proof -
  from assms have "of_int \<lfloor>a / b\<rfloor> * b \<le> a"
    by (rule floor_divide_lower)
  moreover from assms have "a < (of_int \<lfloor>a / b\<rfloor> + 1) * b"
    by (rule floor_divide_upper)
  ultimately show ?thesis
    by (simp add: py_mod_def algebra_simps)
qed

lemma py_mod_small:
  assumes "0 \<le> a" and "a < b"
  shows "py_mod a b = a"
proof -
  from assms have "0 < b" by simp
  with assms have "0 \<le> a / b" and "a / b < 1" by simp_all
  then have "\<lfloor>a / b\<rfloor> = 0" by linarith
  then show ?thesis by (simp add: py_mod_def)
qed

lemma angleWrap_eq: "angleWrap x = py_mod (x + pi) (2 * pi) - pi"
  using py_mod_range [of "2 * pi" "x + pi"] by (simp add: angleWrap_def Let_def)

lemma angleWrap_range: "- pi \<le> angleWrap x \<and> angleWrap x < pi"
  using py_mod_range [of "2 * pi" "x + pi"] by (simp add: angleWrap_eq)

text \<open>
  In exact arithmetic the wrapped angle lies in the half-open interval from \<open>-\<pi>\<close> to \<open>\<pi>\<close>
  and wrapping it again changes nothing. The doubles of the source do not follow at the
  ends of the interval: see \<open>angleWrap64\<close>.
\<close>

lemma angleWrap_exact:
  "- pi \<le> angleWrap x \<and> angleWrap x < pi \<and> angleWrap (angleWrap x) = angleWrap x"
proof -
  have r: "- pi \<le> angleWrap x \<and> angleWrap x < pi" by (rule angleWrap_range)
  then have "py_mod (angleWrap x + pi) (2 * pi) = angleWrap x + pi"
    by (intro py_mod_small) simp_all
  then have "angleWrap (angleWrap x) = angleWrap x"
    by (simp add: angleWrap_eq [of "angleWrap x"])
  with r show ?thesis by simp
qed

section \<open>Change notification\<close>

lemma markStateChanged_frame [simp]:
  "constraints (markStateChanged b r s) = constraints s"
  "masses (markStateChanged b r s) = masses s"
  "mass_heap (markStateChanged b r s) = mass_heap s"
  "con_heap (markStateChanged b r s) = con_heap s"
  "system_changed (markStateChanged b r s) = b"
  "ode_y (markStateChanged b r s) = ode_y s"
  "ode_t (markStateChanged b r s) = ode_t s"
  "bounced_last_step (markStateChanged b r s) = bounced_last_step s"
  "post_state_change_fcn (markStateChanged b r s) = post_state_change_fcn s"
  by (simp_all add: markStateChanged_def logEnergy_def resetEnergyLog_def Let_def
        split: option.splits)

section \<open>Replacing the constraints of a tag\<close>

text \<open>
  C5. For a non-empty list \<open>cs\<close> of constraints that all carry the tag \<open>t \<ge> 0\<close>,
  \<open>updateConstraints cs\<close> returns, and the constraints of the layout are then the former
  ones whose tag is not \<open>t\<close>, in their order, followed by \<open>cs\<close>. Every former constraint
  with another tag is still there, the masses and the objects are untouched, and the
  system-changed flag is set.
\<close>

theorem updateConstraints_replaces_tag:
  assumes "cs \<noteq> []" and "\<forall>c \<in> set cs. tag_id (con_heap s c) = t" and "0 \<le> t"
  shows "\<exists>s'. updateConstraints cs s = Inr s'
           \<and> constraints s' = filter (\<lambda>c. tag_id (con_heap s c) \<noteq> t) (constraints s) @ cs
           \<and> (\<forall>c \<in> set (constraints s). tag_id (con_heap s c) \<noteq> t \<longrightarrow> c \<in> set (constraints s'))
           \<and> masses s' = masses s \<and> mass_heap s' = mass_heap s \<and> con_heap s' = con_heap s
           \<and> system_changed s'"
proof -
  from assms(1) obtain c0 rest where cs: "cs = c0 # rest" by (cases cs) auto
  with assms(2) have t0: "tag_id (con_heap s c0) = t" by simp
  from assms(2) t0 have all: "list_all (\<lambda>c. tag_id (con_heap s c) = tag_id (con_heap s c0)) cs"
    by (simp add: list_all_iff)
  show ?thesis
    using all t0 assms(3) unfolding updateConstraints_def cs
    by (simp add: Let_def)
qed

theorem updateConstraints_replaces_tag_witness:
  "[5 :: nat] \<noteq> [] \<and> tag_id (con_heap ex_tags 5) = 7 \<and> (0 :: int) \<le> 7
   \<and> (\<exists>s'. updateConstraints [5] ex_tags = Inr s' \<and> constraints s' = [3, 4, 5]
          \<and> masses s' = [0, 1] \<and> system_changed s')"
proof -
  have tags: "\<forall>c \<in> set [5 :: nat]. tag_id (con_heap ex_tags c) = 7"
    by (simp add: ex_tags_def new_layout_def)
  have f: "filter (\<lambda>c. tag_id (con_heap ex_tags c) \<noteq> 7) (constraints ex_tags) = [3, 4]"
    by (simp add: ex_tags_def new_layout_def)
  have m: "masses ex_tags = [0, 1]"
    by (simp add: ex_tags_def new_layout_def)
  from updateConstraints_replaces_tag [of "[5]" ex_tags 7, OF _ tags]
  show ?thesis using tags f m by auto
qed

section \<open>The ordering phase\<close>

lemma scores_replicate:
  "scores ch cons mss =
     replicate (length mss)
       (sum_list (map (\<lambda>c. if unplaced_count ch mss c = 1 then 1 else 0) cons))"
  by (simp add: scores_def map_replicate_const)

lemma min_list_replicate: "min_list (replicate (Suc n) (k :: nat)) = k"
  by (induction n) (simp_all)

text \<open>All scores are equal, so the first index of their minimum is 0.\<close>

lemma m_best_hd:
  assumes "mss \<noteq> []"
  shows "m_best ch cons mss = hd mss"
proof -
  from assms obtain x xs where mss: "mss = x # xs" by (cases mss) auto
  have "index_of k (replicate (Suc n) k) = 0" for k :: nat and n by simp
  then show ?thesis
    unfolding m_best_def scores_replicate mss Let_def
    by (simp only: min_list_replicate length_Cons nth_Cons_0 list.sel)
qed

lemma order_loop_Nil:
  "order_loop ch cons [] ms cs = (if cons = [] then Inr (ms, cs) else Inl ValueError)"
  by (simp add: order_loop.simps [of ch cons "[]"])

lemma order_loop_Cons:
  "order_loop ch cons (x # xs) ms cs =
     order_loop ch (fold remove1 (filter (\<lambda>c. unplaced_count ch xs c = 0) cons) cons) xs
       (ms @ [x]) (cs @ filter (\<lambda>c. unplaced_count ch xs c = 0) cons)"
  using m_best_hd [of "x # xs" ch cons]
  by (simp add: order_loop.simps [of ch cons "x # xs"] Let_def)

text \<open>Whatever the constraints are, the masses are placed in the order of insertion.\<close>

lemma order_loop_insertion_order:
  "order_loop ch cons mss ms cs = Inr (ms', cs') \<Longrightarrow> ms' = ms @ mss"
proof (induction mss arbitrary: cons ms cs)
  case Nil
  then show ?case by (simp add: order_loop_Nil split: if_splits)
next
  case (Cons x xs)
  from Cons.prems have "ms' = (ms @ [x]) @ xs"
    unfolding order_loop_Cons by (rule Cons.IH)
  then show ?case by simp
qed

text \<open>
  C2. The ordering loop run on the masses 0, 1, 2 and the constraint between 0 and 2.
  After mass 0, the constraint is pending with mass 2 as its only unplaced mass: placing
  mass 2 would complete one constraint and placing mass 1 none. The loop takes mass 1,
  and its order is 0, 1, 2.
\<close>

theorem order_loop_takes_first_mass:
  "order_loop ex_order_ch [0] [0, 1, 2] [] [] = Inr ([0, 1, 2], [0])
   \<and> m_best ex_order_ch [0] [1, 2] = 1
   \<and> completion_score ex_order_ch [0] [1, 2] 1 = 0
   \<and> completion_score ex_order_ch [0] [1, 2] 2 = 1"
proof -
  have "order_loop ex_order_ch [0] [0, 1, 2] [] [] = Inr ([0, 1, 2], [0])"
    by (simp add: order_loop_Cons order_loop_Nil unplaced_count_def ex_order_ch_def)
  moreover have "m_best ex_order_ch [0] [1, 2] = 1"
    by (simp add: m_best_def scores_def unplaced_count_def ex_order_ch_def)
  moreover have "completion_score ex_order_ch [0] [1, 2] 1 = 0"
    by (simp add: completion_score_def ex_order_ch_def)
  moreover have "completion_score ex_order_ch [0] [1, 2] 2 = 1"
    by (simp add: completion_score_def ex_order_ch_def)
  ultimately show ?thesis by simp
qed

section \<open>Ownership of constrained masses\<close>

lemma ex_owner_fields:
  "masses ex_owner = [0]" "constraints ex_owner = []"
  "con_heap ex_owner = (\<lambda>r. ConstraintDistance 1 2 1 1 0)"
  "mass_heap ex_owner = (\<lambda>r. Mass (if r < 2 then ''a'' else ''b''))"
  by (simp_all add: ex_owner_def ex_names_def addMass_def new_layout_def)

text \<open>
  C3. The layout owns the mass object 0, named \<open>a\<close>, and no constraint, so every
  constrained mass is owned. \<open>updateConstraints\<close> with the constraint between the objects
  1 (also named \<open>a\<close>) and 2 returns a layout that still owns object 0 only and holds the
  constraint unchanged: neither of its masses is owned. \<open>addConstraint\<close> with the same
  constraint rebinds its first mass to object 0 and adds object 2.
\<close>

theorem updateConstraints_leaves_masses_unowned:
  "constraints_owned ex_owner
   \<and> (\<exists>s'. updateConstraints [0] ex_owner = Inr s'
          \<and> constraints s' = [0] \<and> masses s' = [0]
          \<and> con_masses (con_heap s' 0) = [1, 2] \<and> \<not> constraints_owned s')
   \<and> masses (addConstraint 0 ex_owner) = [0, 2]
   \<and> con_masses (con_heap (addConstraint 0 ex_owner) 0) = [0, 2]
   \<and> constraints_owned (addConstraint 0 ex_owner)"
proof -
  have a: "constraints_owned ex_owner"
    by (simp add: constraints_owned_def ex_owner_fields)
  have b: "\<exists>s'. updateConstraints [0] ex_owner = Inr s'
          \<and> constraints s' = [0] \<and> masses s' = [0]
          \<and> con_masses (con_heap s' 0) = [1, 2] \<and> \<not> constraints_owned s'"
    by (simp add: updateConstraints_def constraints_owned_def ex_owner_fields Let_def)
  have r: "fold (rebind 0) (enumerate 0 (con_masses (con_heap ex_owner 0))) ex_owner
             = ex_owner\<lparr>con_heap := (con_heap ex_owner)(0 := ConstraintDistance 0 2 1 1 0)\<rparr>"
    by (simp add: rebind_def getMass_def ex_owner_fields Mass_def)
  have c: "masses (addConstraint 0 ex_owner) = [0, 2]"
    unfolding addConstraint_def Let_def r
    by (simp add: addMass_def ex_owner_fields)
  have d: "con_masses (con_heap (addConstraint 0 ex_owner) 0) = [0, 2]"
    unfolding addConstraint_def Let_def r
    by (simp add: addMass_def ex_owner_fields)
  have e: "constraints (addConstraint 0 ex_owner) = [0]"
    unfolding addConstraint_def Let_def r
    by (simp add: addMass_def ex_owner_fields)
  have "constraints_owned (addConstraint 0 ex_owner)"
    by (simp add: constraints_owned_def c d e)
  with a b c d show ?thesis by simp
qed

section \<open>Names of the masses\<close>

text \<open>
  C6. From the empty layout, \<open>addMass\<close> with the mass object 0 gives a layout whose
  names are unique. \<open>addMass\<close> with the object 1, another object of the same name \<open>a\<close>,
  appends it: the layout then owns two masses named \<open>a\<close>.
\<close>

theorem addMass_admits_second_mass_of_a_name:
  "names_unique (addMass 0 ex_names)
   \<and> name (mass_heap ex_names 0) = name (mass_heap ex_names 1)
   \<and> masses (addMass 1 (addMass 0 ex_names)) = [0, 1]
   \<and> \<not> names_unique (addMass 1 (addMass 0 ex_names))"
  by (simp add: names_unique_def addMass_def ex_names_def new_layout_def)

section \<open>Line and circle\<close>











section \<open>One step of the integrator\<close>

lemma bindE_simps [simp]:
  "bindE (Inr v) f = f v"
  "bindE (Inl e) f = Inl e"
  by (simp_all add: bindE_def)

lemma np_add_same_length:
  "length xs = length ys \<Longrightarrow> np_add xs ys = Inr (vec_add xs ys)"
  by (simp add: np_add_def np_binop_def vec_add_def)

lemma np_iadd_same_length:
  "length v = length ys \<Longrightarrow> np_iadd ys v = Inr (vec_add ys v)"
  by (simp add: np_iadd_def vec_add_def)

lemma length_vec_add [simp]: "length (vec_add xs ys) = min (length xs) (length ys)"
  by (simp add: vec_add_def)

lemma length_vec_scale [simp]: "length (vec_scale k xs) = length xs"
  by (simp add: vec_scale_def)

lemma scale_then_times: "map (\<lambda>x. x * d) (vec_scale (1 / 6) xs) = vec_scale (d / 6) xs"
  by (simp add: vec_scale_def)

lemma integrate_stages:
  assumes f1: "f t y \<sigma> = Inr (k1, \<sigma>1)"
    and f2: "f t (vec_add y (vec_scale (INTEGRATION_DT / 2) k1)) \<sigma>1 = Inr (k2, \<sigma>2)"
    and f3: "f t (vec_add y (vec_scale (INTEGRATION_DT / 2) k2)) \<sigma>2 = Inr (k3, \<sigma>3)"
    and f4: "f t (vec_add y (vec_scale INTEGRATION_DT k3)) \<sigma>3 = Inr (k4, \<sigma>4)"
    and l1: "length k1 = length y" and l2: "length k2 = length y"
    and l3: "length k3 = length y" and l4: "length k4 = length y"
  shows "integrate f y t t_new \<sigma>
           = Inr (vec_add y (vec_scale (INTEGRATION_DT / 6)
                    (vec_add (vec_add (vec_add k1 (vec_scale 2 k2)) (vec_scale 2 k3)) k4)),
                  t_new, \<sigma>4)"
proof -
  let ?d = INTEGRATION_DT
  have a1: "np_add y (vec_scale (?d / 2) k1) = Inr (vec_add y (vec_scale (?d / 2) k1))"
    by (simp add: np_add_same_length l1)
  have a2: "np_add y (vec_scale (?d / 2) k2) = Inr (vec_add y (vec_scale (?d / 2) k2))"
    by (simp add: np_add_same_length l2)
  have a3: "np_add y (vec_scale ?d k3) = Inr (vec_add y (vec_scale ?d k3))"
    by (simp add: np_add_same_length l3)
  have s1: "np_add k1 (vec_scale 2 k2) = Inr (vec_add k1 (vec_scale 2 k2))"
    by (simp add: np_add_same_length l1 l2)
  have s2: "np_add (vec_add k1 (vec_scale 2 k2)) (vec_scale 2 k3)
              = Inr (vec_add (vec_add k1 (vec_scale 2 k2)) (vec_scale 2 k3))"
    by (simp add: np_add_same_length l1 l2 l3)
  have s3: "np_add (vec_add (vec_add k1 (vec_scale 2 k2)) (vec_scale 2 k3)) k4
              = Inr (vec_add (vec_add (vec_add k1 (vec_scale 2 k2)) (vec_scale 2 k3)) k4)"
    by (simp add: np_add_same_length l1 l2 l3 l4)
  have up: "np_iadd y (map (\<lambda>x. x * ?d) (vec_scale (1 / 6)
               (vec_add (vec_add (vec_add k1 (vec_scale 2 k2)) (vec_scale 2 k3)) k4)))
            = Inr (vec_add y (vec_scale (?d / 6)
               (vec_add (vec_add (vec_add k1 (vec_scale 2 k2)) (vec_scale 2 k3)) k4)))"
    unfolding scale_then_times by (simp add: np_iadd_same_length l1 l2 l3 l4)
  show ?thesis
    unfolding integrate_def
    by (simp add: f1 a1 f2 a2 f3 a3 f4 s1 s2 s3 up)
qed

text \<open>
  C8. \<open>\<Delta>t\<close> is 0.1. Let the derivative function \<open>f\<close> return \<open>k\<^sub>1\<close> at \<open>(t, y)\<close>, \<open>k\<^sub>2\<close> at
  \<open>(t, y + \<Delta>t/2 k\<^sub>1)\<close>, \<open>k\<^sub>3\<close> at \<open>(t, y + \<Delta>t/2 k\<^sub>2)\<close> and \<open>k\<^sub>4\<close> at \<open>(t, y + \<Delta>t k\<^sub>3)\<close>, each as
  long as \<open>y\<close>. Then \<open>integrate\<close>, called with \<open>t + \<Delta>t\<close> as \<open>step\<close> calls it, makes exactly
  these four calls, all at time \<open>t\<close>; the new \<open>y\<close>, which it returns, is
  \<open>y + \<Delta>t/6 (k\<^sub>1 + 2 k\<^sub>2 + 2 k\<^sub>3 + k\<^sub>4)\<close>, and the new time is \<open>t + \<Delta>t\<close>.
\<close>

theorem integrate_is_rk4_step:
  assumes "f t y \<sigma> = Inr (k1, \<sigma>1)"
    and "f t (vec_add y (vec_scale (INTEGRATION_DT / 2) k1)) \<sigma>1 = Inr (k2, \<sigma>2)"
    and "f t (vec_add y (vec_scale (INTEGRATION_DT / 2) k2)) \<sigma>2 = Inr (k3, \<sigma>3)"
    and "f t (vec_add y (vec_scale INTEGRATION_DT k3)) \<sigma>3 = Inr (k4, \<sigma>4)"
    and "length k1 = length y" and "length k2 = length y"
    and "length k3 = length y" and "length k4 = length y"
  shows "INTEGRATION_DT = 1 / 10
       \<and> integrate f y t (t + INTEGRATION_DT) \<sigma>
           = Inr (vec_add y (vec_scale (INTEGRATION_DT / 6)
                    (vec_add (vec_add (vec_add k1 (vec_scale 2 k2)) (vec_scale 2 k3)) k4)),
                  t + INTEGRATION_DT, \<sigma>4)"
  using integrate_stages [where f = f, OF assms] by (simp add: INTEGRATION_DT_def)

lemma stateDerivative_ex_one:
  "stateDerivative u [a, b, c, d] (ex_one p v w)
     = Inr ([c, d, - c, - d], ex_one (a, b) (c, d) (- c, - d))"
  by (simp add: stateDerivative_def pushState_def refreshForces_def update_mass_def
        applyFriction_def ex_one_def new_layout_def vadd_def vscale_def
        FRICTION_COEFFICIENT_def enumerate_eq_zip)

text \<open>
  A free mass at the origin with velocity \<open>(1, 0)\<close> under friction alone: the step moves
  it to \<open>x = 0.0951625\<close> and slows it to \<open>0.9048375\<close>.
\<close>

theorem integrate_is_rk4_step_witness:
  "integrate stateDerivative [0, 0, 1, 0] 0 (0 + INTEGRATION_DT) (ex_one (0, 0) (1, 0) (0, 0))
     = Inr ([761300 / 8000000, 0, 7238700 / 8000000, 0], 1 / 10,
            ex_one (9525 / 100000, 0) (90475 / 100000, 0) (- (90475 / 100000), 0))"
proof -
  let ?d = INTEGRATION_DT
  let ?k1 = "[1, 0, - 1, 0] :: real list"
  let ?k2 = "[95 / 100, 0, - (95 / 100), 0] :: real list"
  let ?k3 = "[9525 / 10000, 0, - (9525 / 10000), 0] :: real list"
  let ?k4 = "[90475 / 100000, 0, - (90475 / 100000), 0] :: real list"
  have y1: "vec_add [0, 0, 1, 0] (vec_scale (?d / 2) ?k1) = [5 / 100, 0, 95 / 100, 0]"
    by (simp add: vec_add_def vec_scale_def INTEGRATION_DT_def)
  have y2: "vec_add [0, 0, 1, 0] (vec_scale (?d / 2) ?k2) = [475 / 10000, 0, 9525 / 10000, 0]"
    by (simp add: vec_add_def vec_scale_def INTEGRATION_DT_def)
  have y3: "vec_add [0, 0, 1, 0] (vec_scale ?d ?k3) = [9525 / 100000, 0, 90475 / 100000, 0]"
    by (simp add: vec_add_def vec_scale_def INTEGRATION_DT_def)
  have f1: "stateDerivative 0 [0, 0, 1, 0] (ex_one (0, 0) (1, 0) (0, 0))
              = Inr (?k1, ex_one (0, 0) (1, 0) (- 1, 0))"
    using stateDerivative_ex_one [of 0 0 0 1 0] by simp
  have f2: "stateDerivative 0 (vec_add [0, 0, 1, 0] (vec_scale (?d / 2) ?k1))
              (ex_one (0, 0) (1, 0) (- 1, 0))
              = Inr (?k2, ex_one (5 / 100, 0) (95 / 100, 0) (- (95 / 100), 0))"
    unfolding y1 using stateDerivative_ex_one [of 0 "5 / 100" 0 "95 / 100" 0] by simp
  have f3: "stateDerivative 0 (vec_add [0, 0, 1, 0] (vec_scale (?d / 2) ?k2))
              (ex_one (5 / 100, 0) (95 / 100, 0) (- (95 / 100), 0))
              = Inr (?k3, ex_one (475 / 10000, 0) (9525 / 10000, 0) (- (9525 / 10000), 0))"
    unfolding y2 using stateDerivative_ex_one [of 0 "475 / 10000" 0 "9525 / 10000" 0] by simp
  have f4: "stateDerivative 0 (vec_add [0, 0, 1, 0] (vec_scale ?d ?k3))
              (ex_one (475 / 10000, 0) (9525 / 10000, 0) (- (9525 / 10000), 0))
              = Inr (?k4, ex_one (9525 / 100000, 0) (90475 / 100000, 0)
                            (- (90475 / 100000), 0))"
    unfolding y3 using stateDerivative_ex_one [of 0 "9525 / 100000" 0 "90475 / 100000" 0] by simp
  from integrate_is_rk4_step [where f = stateDerivative, OF f1 f2 f3 f4]
  show ?thesis by (simp add: vec_add_def vec_scale_def INTEGRATION_DT_def)
qed

section \<open>A zero step next to another mass\<close>

lemma ex_pair_fields:
  "pair_at_rest fx (ex_pair fx)" "system_changed (ex_pair fx)"
  by (simp_all add: ex_pair_def addMass_def new_layout_def pair_at_rest_def)

lemma reseed_ex_pair:
  "\<exists>s. reseed (ex_pair fx) = Inr s \<and> pair_at_rest fx s \<and> ode_y s = ex_pair_y"
  using ex_pair_fields [of fx]
  by (simp add: reseed_def pullState_def Mass_def ex_pair_y_def pair_at_rest_def)

lemma stateDerivative_ex_pair:
  assumes "pair_at_rest fx s"
  shows "\<exists>s'. stateDerivative u ex_pair_y s = Inr (replicate 8 0, s') \<and> pair_at_rest fx s'"
  using assms
  by (auto simp add: stateDerivative_def pushState_def refreshForces_def update_mass_def
        applyFriction_def Mass_def vadd_def vscale_def ex_pair_y_def pair_at_rest_def
        FRICTION_COEFFICIENT_def enumerate_eq_zip numeral_eq_Suc fun_eq_iff)

lemma integrate_ex_pair:
  assumes "pair_at_rest fx s"
  shows "\<exists>s'. integrate stateDerivative ex_pair_y t t_new s = Inr (ex_pair_y, t_new, s')
            \<and> pair_at_rest fx s'"
proof -
  have z: "vec_add ex_pair_y (vec_scale k (replicate 8 0)) = ex_pair_y" for k
    by (simp add: vec_add_def vec_scale_def ex_pair_y_def numeral_eq_Suc)
  from stateDerivative_ex_pair [OF assms] obtain s1
    where f1: "stateDerivative t ex_pair_y s = Inr (replicate 8 0, s1)"
      and r1: "pair_at_rest fx s1" by blast
  from stateDerivative_ex_pair [OF r1] obtain s2
    where f2: "stateDerivative t
                 (vec_add ex_pair_y (vec_scale (INTEGRATION_DT / 2) (replicate 8 0))) s1
               = Inr (replicate 8 0, s2)"
      and r2: "pair_at_rest fx s2" unfolding z by blast
  from stateDerivative_ex_pair [OF r2] obtain s3
    where f3: "stateDerivative t
                 (vec_add ex_pair_y (vec_scale (INTEGRATION_DT / 2) (replicate 8 0))) s2
               = Inr (replicate 8 0, s3)"
      and r3: "pair_at_rest fx s3" unfolding z by blast
  from stateDerivative_ex_pair [OF r3] obtain s4
    where f4: "stateDerivative t
                 (vec_add ex_pair_y (vec_scale INTEGRATION_DT (replicate 8 0))) s3
               = Inr (replicate 8 0, s4)"
      and r4: "pair_at_rest fx s4" unfolding z by blast
  have "integrate stateDerivative ex_pair_y t t_new s
          = Inr (vec_add ex_pair_y (vec_scale (INTEGRATION_DT / 6)
                    (vec_add (vec_add (vec_add (replicate 8 0) (vec_scale 2 (replicate 8 0)))
                       (vec_scale 2 (replicate 8 0))) (replicate 8 0))), t_new, s4)"
    by (rule integrate_stages [where f = stateDerivative, OF f1 f2 f3 f4])
       (simp_all add: ex_pair_y_def)
  also have "vec_add ex_pair_y (vec_scale (INTEGRATION_DT / 6)
                    (vec_add (vec_add (vec_add (replicate 8 0) (vec_scale 2 (replicate 8 0)))
                       (vec_scale 2 (replicate 8 0))) (replicate 8 0))) = ex_pair_y"
    by (simp add: vec_add_def vec_scale_def ex_pair_y_def numeral_eq_Suc)
  finally show ?thesis using r4 by blast
qed

lemma vnorm_x: "vnorm (x, 0) = \<bar>x\<bar>"
  by (simp add: vnorm_def)

text \<open>
  The first mass is asked for a step of zero while the second is nearer than the safe
  distance: the line through the start and the end of the step has the slope 0/0.
\<close>

lemma stepSafely_zero_step:
  assumes "pair_at_rest fx s"
  shows "stepSafely 0 (0, 0) s = Some (Inl NonFinite)"
  using assms
  by (subst stepSafely.simps)
     (simp add: pair_at_rest_def vadd_def vsub_def vnorm_x SAFE_DISTANCE_def Mass_def
        firstCircleIntersect_def use_vertical_def Let_def)

lemma stepAll_ex_pair:
  assumes "pair_at_rest fx s"
  shows "stepAll (enumerate 0 (masses s)) (replicate 8 0) s = Some (Inl NonFinite)"
  using assms stepSafely_zero_step [OF assms]
  by (simp add: pair_at_rest_def enumerate_eq_zip numeral_eq_Suc)

lemma pushStateSafely_ex_pair:
  assumes "pair_at_rest fx s"
  shows "pushStateSafely ex_pair_y ex_pair_y s = Some (Inl NonFinite)"
proof -
  from assms have p: "\<exists>s'. pushState ex_pair_y s = Inr s' \<and> pair_at_rest fx s'"
    by (auto simp add: pushState_def update_mass_def pair_at_rest_def ex_pair_y_def Mass_def
          enumerate_eq_zip numeral_eq_Suc fun_eq_iff)
  then obtain s1 where s1: "pushState ex_pair_y s = Inr s1" and r1: "pair_at_rest fx s1"
    by blast
  have d: "np_sub ex_pair_y ex_pair_y = Inr (replicate 8 0)"
    by (simp add: np_sub_def np_binop_def ex_pair_y_def numeral_eq_Suc)
  have len: "length ex_pair_y = 4 * length (masses s1)"
    using r1 by (simp add: pair_at_rest_def ex_pair_y_def)
  show ?thesis
    unfolding pushStateSafely_def
    apply (simp add: s1 d len Let_def)
    apply (rule stepAll_ex_pair [where fx = fx])
    using r1
    apply (auto simp add: update_mass_def pair_at_rest_def ex_pair_y_def Mass_def
          enumerate_eq_zip numeral_eq_Suc fun_eq_iff)
    done
qed

lemma step_ex_pair: "step (ex_pair fx) = Some (Inl NonFinite)"
proof -
  from reseed_ex_pair obtain s1 where s1: "reseed (ex_pair fx) = Inr s1"
    and r1: "pair_at_rest fx s1" and y1: "ode_y s1 = ex_pair_y" by blast
  from integrate_ex_pair [OF r1] obtain s2
    where i: "integrate stateDerivative ex_pair_y (ode_t s1) (ode_t s1 + INTEGRATION_DT) s1
                = Inr (ex_pair_y, ode_t s1 + INTEGRATION_DT, s2)"
      and r2: "pair_at_rest fx s2" by blast
  define s3 where "s3 = s2\<lparr>ode_y := ex_pair_y, ode_t := ode_t s1 + INTEGRATION_DT,
                            log_a := log_a s2 @ [ode_t s1 + INTEGRATION_DT]\<rparr>"
  from r2 have r3: "pair_at_rest fx s3" by (simp add: s3_def pair_at_rest_def)
  show ?thesis
    unfolding step_def
    using pushStateSafely_ex_pair [OF r3]
    by (simp add: s1 y1 i Let_def s3_def)
qed

text \<open>
  C1. Two free masses at rest, 0.1 apart, with no constraint. \<open>step\<close> asks the first mass
  for a step of zero, finds the second one within the safe distance of the target, and
  computes the slope 0/0 for the line of the step: the call ends with positions that are
  not numbers, not with the two masses 0.2 apart.
\<close>

theorem step_zero_step_within_safe_distance:
  "masses (ex_pair False) = [0, 1]
   \<and> \<not> fixed (mass_heap (ex_pair False) 0) \<and> \<not> fixed (mass_heap (ex_pair False) 1)
   \<and> distance (mass_heap (ex_pair False) 0) (mass_heap (ex_pair False) 1) = 1 / 10
   \<and> step (ex_pair False) = Some (Inl NonFinite)"
  using ex_pair_fields [of False] step_ex_pair [of False]
  by (simp add: pair_at_rest_def distance_def vsub_def vnorm_def Mass_def real_sqrt_divide)

text \<open>
  C4. A fixed mass at the origin and a free mass at rest 0.1 away from it, with no
  constraint. The step of the fixed mass is zero, the free mass is within the safe
  distance of it, and \<open>step\<close> computes the slope 0/0: the call does not end with the
  fixed mass where it was.
\<close>

theorem step_fixed_mass_next_to_another:
  "masses (ex_pair True) = [0, 1]
   \<and> fixed (mass_heap (ex_pair True) 0) \<and> pos (mass_heap (ex_pair True) 0) = (0, 0)
   \<and> vel (mass_heap (ex_pair True) 0) = (0, 0)
   \<and> stepSafely 0 (0, 0) (ex_pair True) = Some (Inl NonFinite)
   \<and> step (ex_pair True) = Some (Inl NonFinite)"
  using ex_pair_fields [of True] step_ex_pair [of True]
    stepSafely_zero_step [of True "ex_pair True"]
  by (simp add: pair_at_rest_def)

section \<open>What the initial placement leaves alone\<close>

lemma bindE_Inr:
  "bindE r f = Inr v \<Longrightarrow> \<exists>u. r = Inr u \<and> f u = Inr v"
  by (cases r) simp_all

lemma place_all_same_control:
  "place_all ms cs u s = Inr (u', s') \<Longrightarrow> same_control s s' \<and> masses s' = masses s @ ms"
proof (induction ms arbitrary: cs u s)
  case Nil
  then show ?case by (simp add: same_control_def)
next
  case (Cons m ms)
  from Cons.prems obtain cs2 u2 s2 where
    rec: "place_all ms cs2 u2 s2 = Inr (u', s')"
    and c2: "same_control s s2" and m2: "masses s2 = masses s @ [m]"
    by (auto simp add: Let_def update_mass_def same_control_def
          split: if_splits sum.splits)
  from Cons.IH [OF rec] c2 m2 show ?case
    by (simp add: same_control_def)
qed

text \<open>
  A call of \<open>initialiseState\<close> that returns leaves the masses of the layout in the order
  they had.
\<close>

lemma initialiseState_masses:
  assumes "initialiseState s = Inr (u, s')"
  shows "masses s' = masses s"
proof -
  from assms obtain oc where
    o: "order_loop (con_heap s) (constraints s) (masses s) [] [] = Inr oc"
    and p: "place_all (fst oc) (snd oc) [] (s\<lparr>masses := [], constraints := []\<rparr>) = Inr (u, s')"
    unfolding initialiseState_def by (auto dest!: bindE_Inr)
  from o have "fst oc = masses s"
    using order_loop_insertion_order [of "con_heap s" "constraints s" "masses s" "[]" "[]"
        "fst oc" "snd oc"] by simp
  with place_all_same_control [OF p] show ?thesis by simp
qed

text \<open>
  C10. A call of \<open>initialiseState\<close> that returns, with or without a division by zero on
  its way, has not marked the state as changed: the system-changed flag, the energy log,
  the hook and the count of its calls, and the state of the integrator are what they
  were. So the first statement of the next \<open>step\<close> gives the integrator the new positions
  exactly when the flag was set before the call of \<open>initialiseState\<close>; otherwise it
  leaves the integrator with its old vector.
\<close>

theorem initialiseState_does_not_mark_state_changed:
  assumes "initialiseState s = Inr (u, s')"
  shows "system_changed s' = system_changed s \<and> energy_log s' = energy_log s
       \<and> post_state_change_fcn s' = post_state_change_fcn s \<and> hook_calls s' = hook_calls s
       \<and> ode_y s' = ode_y s \<and> ode_t s' = ode_t s
       \<and> (\<not> system_changed s \<longrightarrow> reseed s' = Inr s')
       \<and> (system_changed s \<longrightarrow>
            reseed s' = bindE (pullState s')
                          (\<lambda>yv. Inr (s'\<lparr>ode_y := yv, system_changed := False\<rparr>)))"
proof -
  from assms obtain oc where
    p: "place_all (fst oc) (snd oc) [] (s\<lparr>masses := [], constraints := []\<rparr>) = Inr (u, s')"
    unfolding initialiseState_def by (auto dest!: bindE_Inr)
  from place_all_same_control [OF p] have c: "same_control s s'"
    by (simp add: same_control_def)
  then have f: "system_changed s' = system_changed s" by (simp add: same_control_def)
  from c f show ?thesis by (simp add: same_control_def reseed_def)
qed

lemma ex_two_fields:
  "masses ex_two = [0, 1]" "constraints ex_two = [0]" "\<not> system_changed ex_two"
  "ode_y ex_two = []"
  "con_heap ex_two = (\<lambda>r. ConstraintDistance 0 1 1 1 (- 1))"
  "mass_heap ex_two = (\<lambda>r. Mass (if r = 0 then ''a'' else ''b''))"
  by (simp_all add: ex_two_def addConstraint_def rebind_def getMass_def addMass_def
        new_layout_def enumerate_eq_zip)

text \<open>Two masses and one constraint: no division by zero, every position is followed.\<close>

lemma initialiseState_ex_two:
  "\<exists>s'. initialiseState ex_two = Inr ([], s') \<and> pos (mass_heap s' 0) = (0, 0)
        \<and> pos (mass_heap s' 1) = (1, 0) \<and> constraints s' = [0]"
  by (simp add: initialiseState_def ex_two_fields order_loop_Cons order_loop_Nil
        unplaced_count_def update_mass_def Mass_def List.map_filter_def merge_group_def
        place_step_def placement_of_def merged_key_def Let_def vadd_def vscale_def vdiv_def)

lemma ex_triangle_fields:
  "masses ex_triangle = [0, 1, 2]" "constraints ex_triangle = [0, 1, 2]"
  "system_changed ex_triangle"
  "con_heap ex_triangle = (\<lambda>r. if r = 0 then ConstraintDistance 0 1 1 1 (- 1)
                else if r = 1 then ConstraintDistance 1 2 1 1 (- 1)
                else ConstraintDistance 2 0 1 1 (- 1))"
  "mass_heap ex_triangle = (\<lambda>r. Mass (if r = 0 then ''a'' else if r = 1 then ''b'' else ''c''))"
  by (simp_all add: ex_triangle_def addConstraints_def addConstraint_def rebind_def
        getMass_def addMass_def new_layout_def enumerate_eq_zip Mass_def fun_eq_iff)


text \<open>
  The triangle: \<open>a\<close> is placed at the origin, \<open>b\<close> at \<open>(1, 0)\<close>. For \<open>c\<close> the suggestion
  relative to \<open>a\<close> gives \<open>(1, 0)\<close>, which is where \<open>b\<close> is, and the suggestion relative to \<open>b\<close>
  divides the zero vector by its norm. The call returns, with the position of \<open>c\<close> not a
  pair of reals.
\<close>

lemma initialiseState_ex_triangle:
  "\<exists>s'. initialiseState ex_triangle = Inr ([2], s') \<and> pos (mass_heap s' 1) = (1, 0)
        \<and> masses s' = [0, 1, 2] \<and> constraints s' = [0, 1, 2]"
  by (simp add: initialiseState_def ex_triangle_fields order_loop_Cons order_loop_Nil
        unplaced_count_def update_mass_def Mass_def List.map_filter_def merge_group_def
        place_step_def placement_of_def merged_key_def Let_def vadd_def vscale_def vdiv_def
        vsub_def vnorm_def)


theorem initialiseState_does_not_mark_state_changed_witness:
  "(\<exists>s'. initialiseState ex_two = Inr ([], s') \<and> pos (mass_heap s' 1) = (1, 0)
         \<and> \<not> system_changed ex_two \<and> \<not> system_changed s' \<and> ode_y s' = []
         \<and> reseed s' = Inr s')
   \<and> (\<exists>s'. initialiseState ex_triangle = Inr ([2], s')
         \<and> system_changed ex_triangle \<and> system_changed s'
         \<and> energy_log s' = energy_log ex_triangle \<and> ode_y s' = ode_y ex_triangle
         \<and> reseed s' = bindE (pullState s')
                          (\<lambda>yv. Inr (s'\<lparr>ode_y := yv, system_changed := False\<rparr>)))"
proof
  from initialiseState_ex_two obtain s' where
    i: "initialiseState ex_two = Inr ([], s')" and p: "pos (mass_heap s' 1) = (1, 0)" by blast
  from initialiseState_does_not_mark_state_changed [OF i] i p ex_two_fields
  show "\<exists>s'. initialiseState ex_two = Inr ([], s') \<and> pos (mass_heap s' 1) = (1, 0)
         \<and> \<not> system_changed ex_two \<and> \<not> system_changed s' \<and> ode_y s' = []
         \<and> reseed s' = Inr s'"
    by simp
next
  from initialiseState_ex_triangle obtain s' where
    i: "initialiseState ex_triangle = Inr ([2], s')" by blast
  from initialiseState_does_not_mark_state_changed [OF i] i ex_triangle_fields
  show "\<exists>s'. initialiseState ex_triangle = Inr ([2], s')
         \<and> system_changed ex_triangle \<and> system_changed s'
         \<and> energy_log s' = energy_log ex_triangle \<and> ode_y s' = ode_y ex_triangle
         \<and> reseed s' = bindE (pullState s')
                          (\<lambda>yv. Inr (s'\<lparr>ode_y := yv, system_changed := False\<rparr>))"
    by simp
qed

section \<open>Angle wrapping on doubles\<close>

lemma fl64_in_binade:
  assumes "2 powr of_int k \<le> \<bar>x\<bar>" and "\<bar>x\<bar> < 2 powr (of_int k + 1)"
  shows "fl64 x = of_int (round_half_even (x / 2 powr of_int (k - 52))) * 2 powr of_int (k - 52)"
proof -
  have "0 < (2::real) powr of_int k" by simp
  with assms(1) have pos: "0 < \<bar>x\<bar>" by linarith
  then have nz: "x \<noteq> 0" by auto
  from assms pos have "\<lfloor>log 2 \<bar>x\<bar>\<rfloor> = k"
    by (simp add: floor_log_eq_powr_iff)
  with nz show ?thesis by (simp add: fl64_def Let_def)
qed

lemma fl64_2_4:
  assumes "2 \<le> \<bar>x\<bar>" and "\<bar>x\<bar> < 4"
  shows "fl64 x = of_int (round_half_even (x * 2 ^ 51)) / 2 ^ 51"
  using fl64_in_binade [of 1 x] assms by (simp add: powr_neg_numeral)

lemma fl64_4_8:
  assumes "4 \<le> \<bar>x\<bar>" and "\<bar>x\<bar> < 8"
  shows "fl64 x = of_int (round_half_even (x * 2 ^ 50)) / 2 ^ 50"
  using fl64_in_binade [of 2 x] assms by (simp add: powr_neg_numeral)

lemma fl64_tiny: "fl64 (- (1 / 2 ^ 51)) = - (1 / 2 ^ 51)"
  using fl64_in_binade [of "- 51" "- (1 / 2 ^ 51)"]
  by (simp add: powr_neg_numeral round_half_even_def)

text \<open>The literal \<^verbatim>\<open>-3.1415926535897936\<close> is read as \<open>ex_angle\<close>.\<close>

lemma ex_angle_literal: "fl64 (- (31415926535897936 / 10 ^ 16)) = ex_angle"
  by (subst fl64_2_4) (simp_all add: round_half_even_def ex_angle_def)

lemma fl64_pi64: "fl64 pi64 = pi64" "fl64 (- pi64) = - pi64"
  by (subst fl64_2_4; simp add: round_half_even_def pi64_def)+

lemma fl64_two_pi64: "fl64 (2 * pi64) = 2 * pi64"
  by (subst fl64_4_8) (simp_all add: round_half_even_def pi64_def)

text \<open>
  The sum \<open>2 pi64 - 2\<^sup>-\<^sup>5\<^sup>1\<close> lies half way between two doubles, and \<open>2 pi64\<close> is the one with
  the even significand.
\<close>

lemma fl64_tie: "fl64 (- (1 / 2 ^ 51) + 2 * pi64) = 2 * pi64"
  by (subst fl64_4_8) (simp_all add: round_half_even_def pi64_def)

lemma angleWrap64_ex_angle: "angleWrap64 ex_angle = pi64"
proof -
  have s: "ex_angle + pi64 = - (1 / 2 ^ 51)"
    by (simp add: ex_angle_def pi64_def)
  have c: "\<lceil>- (1 / 14148475504056880 :: real)\<rceil> = 0"
    by (rule ceiling_unique) simp_all
  have m: "c_fmod (- (1 / 2 ^ 51)) (2 * pi64) = - (1 / 2 ^ 51)"
    by (simp add: c_fmod_def pi64_def c)
  have f: "float_mod (- (1 / 2 ^ 51)) (2 * pi64) = 2 * pi64"
    unfolding float_mod_def m Let_def using fl64_tie by (simp add: pi64_def)
  have p: "0 < pi64" by (simp add: pi64_def)
  show ?thesis
    unfolding angleWrap64_def s fl64_tiny fl64_two_pi64 f Let_def
    using p fl64_pi64 by simp
qed

lemma angleWrap64_pi64: "angleWrap64 pi64 = - pi64"
proof -
  have m: "c_fmod (2 * pi64) (2 * pi64) = 0"
    by (simp add: c_fmod_def pi64_def)
  have f: "float_mod (2 * pi64) (2 * pi64) = 0"
    by (simp add: float_mod_def m)
  have s: "fl64 (pi64 + pi64) = 2 * pi64"
    using fl64_two_pi64 by simp
  show ?thesis
    unfolding angleWrap64_def s fl64_two_pi64 f Let_def
    using fl64_pi64 by simp
qed

text \<open>
  C7. \<open>ex_angle\<close> is the double that the literal \<^verbatim>\<open>-3.1415926535897936\<close> denotes. On it,
  \<^verbatim>\<open>_angleWrap\<close> returns \<^verbatim>\<open>np.pi\<close> itself, which is not below \<^verbatim>\<open>np.pi\<close>, and wrapping that
  result again returns \<^verbatim>\<open>-np.pi\<close>, another number.
\<close>

theorem angleWrap64_reaches_pi_not_idempotent:
  "fl64 (- (31415926535897936 / 10 ^ 16)) = ex_angle
   \<and> angleWrap64 ex_angle = pi64
   \<and> \<not> angleWrap64 ex_angle < pi64
   \<and> angleWrap64 (angleWrap64 ex_angle) = - pi64
   \<and> angleWrap64 (angleWrap64 ex_angle) \<noteq> angleWrap64 ex_angle"
proof -
  have ne: "- pi64 \<noteq> pi64" by (simp add: pi64_def)
  have a: "\<not> angleWrap64 ex_angle < pi64"
    by (simp add: angleWrap64_ex_angle)
  have b: "angleWrap64 (angleWrap64 ex_angle) = - pi64"
    by (simp add: angleWrap64_ex_angle angleWrap64_pi64)
  have c: "angleWrap64 (angleWrap64 ex_angle) \<noteq> angleWrap64 ex_angle"
    unfolding b unfolding angleWrap64_ex_angle by (rule ne)
  from ex_angle_literal angleWrap64_ex_angle a b c show ?thesis by blast
qed

end
